theory Spec2Isabelle
  imports Complex_Main
begin

section \<open>Common data: errors, parameters, frames\<close>

text \<open>
  The two scripts \<^verbatim>\<open>viz_interactive.py\<close> and \<^verbatim>\<open>viz_hologram.py\<close> work on numpy
  arrays of floats. Voxel values are modelled as (finite) real numbers; a frame is the
  flattened (C-order) list of the voxels of one time step. Python exceptions are values of
  the type \<open>error\<close>, and a computation that may raise returns \<open>error + 'a\<close>.
\<close>

datatype error =
    ValueError | IndexError | ZeroDivisionError | UnboundLocalError | TypeError | RuntimeError

text \<open>The keys of the dictionary \<^verbatim>\<open>params\<close> (viz_interactive.py, lines 40-53).\<close>

datatype pname =
    Smoothing | Gamma | Step_size | Clim_min | Clim_max | Contrast | Rotation_speed
  | Brightness | Percentile_min | Percentile_max | Frame_skip | Log_scale

type_synonym params = "pname \<Rightarrow> real"

type_synonym frame = "real list"

fun default_params :: params where
  "default_params Smoothing = 1.5"
| "default_params Gamma = 2.0"
| "default_params Step_size = 0.5"
| "default_params Clim_min = 0.0"
| "default_params Clim_max = 0.70"
| "default_params Contrast = 0.8"
| "default_params Rotation_speed = 2.0"
| "default_params Brightness = 1.0"
| "default_params Percentile_min = 5.0"
| "default_params Percentile_max = 95.0"
| "default_params Frame_skip = 1"
| "default_params Log_scale = 0.0"

section \<open>The normalization pipeline (viz_interactive.py, process_voxels)\<close>

text \<open>
  \<^verbatim>\<open>voxels_raw = np.abs(np.nan_to_num(np.load(...)))\<close> (lines 13-16): on finite values
  \<^verbatim>\<open>nan_to_num\<close> is the identity, so the raw series is the absolute value of what was
  loaded.
\<close>

definition voxels_raw_of :: "frame list \<Rightarrow> frame list" where
  "voxels_raw_of loaded = map (map abs) loaded"

text \<open>\<^verbatim>\<open>np.clip(x, lo, hi)\<close> is \<^verbatim>\<open>minimum(maximum(x, lo), hi)\<close>.\<close>

definition clip :: "real \<Rightarrow> real \<Rightarrow> real \<Rightarrow> real" where
  "clip x lo hi = min (max x lo) hi"

text \<open>
  \<^verbatim>\<open>np.percentile(frame, [qmin, qmax])\<close> with the default linear interpolation: both
  percentiles are checked to be in \<open>[0, 100]\<close> first (ValueError otherwise); the flattened
  frame is sorted, the virtual index of \<open>q\<close> is \<open>(n - 1) * q / 100\<close>, and the result
  interpolates between the two neighbouring order statistics. An empty frame has no order
  statistic to read: the model raises IndexError there (numpy raises or yields NaN,
  depending on its version), and the properties below are stated for non-empty frames.
\<close>

definition quantile_linear :: "frame \<Rightarrow> real \<Rightarrow> real" where
  "quantile_linear frame q =
     (let a = sort frame;
          n = length a;
          h = real (n - 1) * (q / 100);
          lo = nat \<lfloor>h\<rfloor>;
          hi = min (lo + 1) (n - 1);
          g = h - real lo
      in a ! lo + (a ! hi - a ! lo) * g)"

definition percentile :: "frame \<Rightarrow> real \<Rightarrow> real \<Rightarrow> error + (real \<times> real)" where
  "percentile frame qmin qmax =
     (if qmin < 0 \<or> 100 < qmin \<or> qmax < 0 \<or> 100 < qmax then Inl ValueError
      else if frame = [] then Inl IndexError
      else Inr (quantile_linear frame qmin, quantile_linear frame qmax))"

text \<open>Lines 60-63: the logarithmic mix applied to one voxel.\<close>

definition log_mix :: "real \<Rightarrow> real \<Rightarrow> real" where
  "log_mix m x =
     (let v = x + 1 / 10 ^ 8;
          log_v = ln (v + 1)
      in (1 - m) * v + m * log_v)"

text \<open>
  Lines 67-70, the body of the per-frame loop: the frame is rescaled and clipped only when
  \<^verbatim>\<open>vmax > vmin\<close>; otherwise \<^verbatim>\<open>voxels[i]\<close> is not assigned and keeps its values.
\<close>

definition normalize_frame :: "params \<Rightarrow> frame \<Rightarrow> error + frame" where
  "normalize_frame p frame =
     (case percentile frame (p Percentile_min) (p Percentile_max) of
        Inl e \<Rightarrow> Inl e
      | Inr (vmin, vmax) \<Rightarrow>
          if vmax > vmin
          then Inr (map (\<lambda>x. clip ((x - vmin) / (vmax - vmin)) 0 1) frame)
          else Inr frame)"

text \<open>Line 66: the loop over the frames, in order; the first exception ends it.\<close>

fun normalize_frames :: "params \<Rightarrow> frame list \<Rightarrow> error + frame list" where
  "normalize_frames p [] = Inr []"
| "normalize_frames p (frame # rest) =
     (case normalize_frame p frame of
        Inl e \<Rightarrow> Inl e
      | Inr f \<Rightarrow>
          (case normalize_frames p rest of
             Inl e \<Rightarrow> Inl e
           | Inr fs \<Rightarrow> Inr (f # fs)))"

text \<open>
  Lines 56-84. \<open>gaussian_filter\<close> is scipy's filter, a parameter of the model (it is
  given the frame and \<open>sigma\<close>). numpy's \<^verbatim>\<open>x ** c\<close> is \<open>x powr c\<close> for \<open>x \<ge> 0\<close> and
  \<open>c > 0\<close>, which is where the script uses it: the raw values are absolute values, the
  logarithmic mix keeps them non-negative for \<^verbatim>\<open>log_scale\<close> in \<open>[0, 1]\<close>, and the
  contrast slider ranges over \<open>[0.3, 5]\<close> (lines 203 and 209).
\<close>

definition process_voxels ::
  "(frame \<Rightarrow> real \<Rightarrow> frame) \<Rightarrow> params \<Rightarrow> frame list \<Rightarrow> error + frame list" where
  "process_voxels gaussian_filter p voxels_raw =
     (let voxels0 =
            (if p Log_scale > 0 then map (map (log_mix (p Log_scale))) voxels_raw
             else voxels_raw)
      in case normalize_frames p voxels0 of
           Inl e \<Rightarrow> Inl e
         | Inr voxels1 \<Rightarrow>
             (let voxels2 = map (map (\<lambda>x. x powr p Contrast)) voxels1;
                  voxels3 = map (map (\<lambda>x. x * p Brightness)) voxels2;
                  voxels4 = map (map (\<lambda>x. clip x 0 1)) voxels3;
                  voxels5 =
                    (if p Smoothing > 0
                     then map (\<lambda>frame. gaussian_filter frame (p Smoothing)) voxels4
                     else voxels4)
              in Inr voxels5))"

section \<open>The interactive viewer (viz_interactive.py): parameters, reprocess, tick\<close>

type_synonym vec3 = "real \<times> real \<times> real"

text \<open>
  A vispy \<^verbatim>\<open>MatrixTransform\<close> holds a matrix that \<^verbatim>\<open>translate\<close> and
  \<^verbatim>\<open>rotate\<close> multiply by the matrix of the operation, and that \<^verbatim>\<open>reset\<close> sets back
  to the identity. The matrix is a function of the operations applied since the last
  reset, so the object is represented by that sequence of operations.
\<close>

datatype transform_op = Translate vec3 | Rotate real vec3

type_synonym transform = "transform_op list"

definition transform_reset :: "transform \<Rightarrow> transform" where
  "transform_reset t = []"

definition transform_translate :: "vec3 \<Rightarrow> transform \<Rightarrow> transform" where
  "transform_translate pos t = t @ [Translate pos]"

definition transform_rotate :: "real \<Rightarrow> vec3 \<Rightarrow> transform \<Rightarrow> transform" where
  "transform_rotate angle axis t = t @ [Rotate angle axis]"

fun neg_vec :: "vec3 \<Rightarrow> vec3" where
  "neg_vec (x, y, z) = (- x, - y, - z)"

text \<open>
  The mutable state of viz_interactive.py: the dictionary \<^verbatim>\<open>params\<close>, the positions of
  the sliders, the processed series \<^verbatim>\<open>voxels\<close>, the animation state and the properties
  of the volume visual \<^verbatim>\<open>holo\<close> and of the electrode node \<^verbatim>\<open>elecs\<close>.
\<close>

record istate =
  params :: params
  sliders :: "pname \<Rightarrow> int"
  voxels :: "frame list"
  current_frame :: int
  rotation_angle :: real
  holo_data :: frame
  holo_gamma :: real
  holo_relative_step_size :: real
  holo_clim :: "real \<times> real"
  holo_transform :: transform
  elecs_transform :: transform

text \<open>The \<^verbatim>\<open>scale\<close> of each slider (lines 198-209): 100 by default, 1 for frame_skip.\<close>

definition slider_scale :: "pname \<Rightarrow> real" where
  "slider_scale name = (if name = Frame_skip then 1 else 100)"

text \<open>Python's \<^verbatim>\<open>int(x)\<close> on a float truncates towards zero.\<close>

definition py_int :: "real \<Rightarrow> int" where
  "py_int x = (if 0 \<le> x then \<lfloor>x\<rfloor> else \<lceil>x\<rceil>)"

text \<open>Lines 296-309: the handler that \<^verbatim>\<open>update_param(param_name)\<close> returns.\<close>

definition update_param :: "pname \<Rightarrow> int \<Rightarrow> istate \<Rightarrow> istate" where
  "update_param param_name val s =
     (let actual_value = real_of_int val / slider_scale param_name;
          s1 = s\<lparr>params := (params s)(param_name := actual_value)\<rparr>
      in if param_name = Gamma then s1\<lparr>holo_gamma := actual_value\<rparr>
         else if param_name = Step_size then s1\<lparr>holo_relative_step_size := actual_value\<rparr>
         else if param_name \<in> {Clim_min, Clim_max}
         then s1\<lparr>holo_clim := (params s1 Clim_min, params s1 Clim_max)\<rparr>
         else s1)"

text \<open>
  \<^verbatim>\<open>slider.setValue(v)\<close> for a value \<open>v\<close> within the range of the slider, as the
  defaults are: Qt stores the value and emits \<^verbatim>\<open>valueChanged\<close>, which line 313 connects
  to the handler, only when the value changes.
\<close>

definition set_value :: "pname \<Rightarrow> int \<Rightarrow> istate \<Rightarrow> istate" where
  "set_value name v s =
     (if sliders s name = v then s
      else update_param name v (s\<lparr>sliders := (sliders s)(name := v)\<rparr>))"

text \<open>Lines 315-324: the dictionary \<^verbatim>\<open>defaults\<close>, in its order, and the loop over it.\<close>

definition defaults :: "(pname \<times> real) list" where
  "defaults =
     [(Smoothing, 1.5), (Gamma, 2.0), (Step_size, 0.5),
      (Clim_min, 0.0), (Clim_max, 0.70), (Contrast, 0.8),
      (Rotation_speed, 2.0), (Brightness, 1.0),
      (Percentile_min, 5.0), (Percentile_max, 95.0),
      (Frame_skip, 1), (Log_scale, 0.0)]"

fun set_values :: "(pname \<times> real) list \<Rightarrow> istate \<Rightarrow> istate" where
  "set_values [] s = s"
| "set_values ((name, v) # rest) s =
     set_values rest (set_value name (py_int (v * slider_scale name)) s)"

definition reset_defaults :: "istate \<Rightarrow> istate" where
  "reset_defaults s = set_values defaults s"

text \<open>
  Lines 326-331. A handler that raises leaves the assignments made before the raise in
  place, so the result is the state reached together with the exception, if any.
  \<^verbatim>\<open>voxels[current_frame[0]]\<close> follows Python's indexing (negative indices count from the
  end, IndexError out of range).
\<close>

definition py_index :: "'a list \<Rightarrow> int \<Rightarrow> error + 'a" where
  "py_index xs i =
     (if 0 \<le> i \<and> i < int (length xs) then Inr (xs ! nat i)
      else if i < 0 \<and> - int (length xs) \<le> i then Inr (xs ! nat (int (length xs) + i))
      else Inl IndexError)"

definition reprocess ::
  "(frame \<Rightarrow> real \<Rightarrow> frame) \<Rightarrow> frame list \<Rightarrow> istate \<Rightarrow> istate \<times> error option" where
  "reprocess gaussian_filter voxels_raw s =
     (case process_voxels gaussian_filter (params s) voxels_raw of
        Inl e \<Rightarrow> (s, Some e)
      | Inr v \<Rightarrow>
          (let s1 = s\<lparr>voxels := v\<rparr>
           in case py_index (voxels s1) (current_frame s1) of
                Inl e \<Rightarrow> (s1, Some e)
              | Inr frame_data \<Rightarrow> (s1\<lparr>holo_data := frame_data\<rparr>, None)))"

text \<open>
  Lines 336-355, one tick of the timer. \<open>center\<close> is the module-level constant of line
  274 and \<open>dt\<close> is \<^verbatim>\<open>ev.dt\<close>. The \<^verbatim>\<open>except\<close> clause prints the exception and the
  handler returns; the second component is the exception that was caught.
\<close>

definition update_interactive :: "vec3 \<Rightarrow> real \<Rightarrow> istate \<Rightarrow> istate \<times> error option" where
  "update_interactive center dt s =
     (let skip = max 1 (py_int (params s Frame_skip))
      in if length (voxels s) = 0 then (s, Some ZeroDivisionError)
         else
           (let i = (current_frame s + skip) mod int (length (voxels s));
                s1 = s\<lparr>current_frame := i\<rparr>
            in case py_index (voxels s1) i of
                 Inl e \<Rightarrow> (s1, Some e)
               | Inr frame_data \<Rightarrow>
                   (let s2 = s1\<lparr>holo_data := frame_data\<rparr>;
                        s3 = s2\<lparr>rotation_angle :=
                                  rotation_angle s2 + dt * params s2 Rotation_speed\<rparr>;
                        s4 = s3\<lparr>holo_transform :=
                                  transform_rotate (rotation_angle s3) (0, 0, 1)
                                    (transform_translate (neg_vec center)
                                      (transform_reset (holo_transform s3)))\<rparr>;
                        s5 = s4\<lparr>elecs_transform :=
                                  transform_rotate (rotation_angle s4) (0, 0, 1)
                                    (transform_translate (neg_vec center)
                                      (transform_reset (elecs_transform s4)))\<rparr>
                    in (s5, None))))"

text \<open>The timer: one call of the handler per event, each with its own \<^verbatim>\<open>ev.dt\<close>.\<close>

fun run_interactive :: "vec3 \<Rightarrow> real list \<Rightarrow> istate \<Rightarrow> istate" where
  "run_interactive center [] s = s"
| "run_interactive center (dt # dts) s =
     run_interactive center dts (fst (update_interactive center dt s))"

section \<open>The hologram viewer (viz_hologram.py)\<close>

text \<open>
  The 4-dimensional array \<^verbatim>\<open>voxels\<close> of shape \<open>(T, X, Y, Z)\<close>: the shape \<open>(X, Y, Z)\<close>
  of every frame and the frames, each flattened in C order.
\<close>

record voxel_series =
  dims :: "nat \<times> nat \<times> nat"
  frames :: "frame list"

type_synonym rgba = "real \<times> real \<times> real \<times> real"


text \<open>\<^verbatim>\<open>colors[:, 3] = a\<close> on one row.\<close>

fun set_alpha :: "real \<Rightarrow> rgba \<Rightarrow> rgba" where
  "set_alpha a' (r, g, b, a) = (r, g, b, a')"

text \<open>
  What \<^verbatim>\<open>measure.marching_cubes\<close> returns, as far as the script reads it. The extractor
  itself is skimage's and a parameter of the model: given the shape, the frame and the
  level it returns a mesh or raises.
\<close>

record mesh =
  verts :: "vec3 list"
  faces :: "(nat \<times> nat \<times> nat) list"

type_synonym extractor = "nat \<times> nat \<times> nat \<Rightarrow> frame \<Rightarrow> real \<Rightarrow> error + mesh"

record mesh_visual =
  mv_vertices :: "vec3 list"
  mv_faces :: "(nat \<times> nat \<times> nat) list"
  mv_vertex_colors :: "rgba list"
  mv_transform :: transform

definition ROTATION_SPEED :: real where
  "ROTATION_SPEED = 2"

definition SHOW_ELECTRODES :: bool where
  "SHOW_ELECTRODES = True"

definition NUM_LAYERS :: nat where
  "NUM_LAYERS = 5"

text \<open>\<^verbatim>\<open>np.linspace(start, stop, num)\<close>.\<close>

definition linspace :: "real \<Rightarrow> real \<Rightarrow> nat \<Rightarrow> real list" where
  "linspace start stop num =
     (if num = 1 then [start]
      else map (\<lambda>k. start + real k * ((stop - start) / real (num - 1))) [0..<num])"

definition iso_levels :: "real list" where
  "iso_levels = linspace 0.3 0.8 NUM_LAYERS"

text \<open>\<^verbatim>\<open>np.array(voxels[0].shape) / 2\<close>.\<close>

fun center_of :: "nat \<times> nat \<times> nat \<Rightarrow> vec3" where
  "center_of (nx, ny, nz) = (real nx / 2, real ny / 2, real nz / 2)"

text \<open>
  Lines 38-40 and 124-126: the colours of the vertices of layer \<open>idx\<close>. \<open>cmap\<close> is
  the colormap, a parameter; \<^verbatim>\<open>voxels.shape[3]\<close> is the third component of \<open>dims\<close>.
\<close>

definition layer_colors ::
  "(real \<Rightarrow> rgba) \<Rightarrow> voxel_series \<Rightarrow> nat \<Rightarrow> vec3 list \<Rightarrow> rgba list" where
  "layer_colors cmap vox idx vs =
     (let intensity = real (idx + 1) / real NUM_LAYERS
      in map (\<lambda>(x, y, z).
                set_alpha (0.15 + 0.1 * intensity) (cmap (z / real (snd (snd (dims vox))))))
           vs)"

text \<open>
  Lines 33-54: the loop that creates the layers sits inside one \<^verbatim>\<open>try\<close>, so the first
  exception (of the extractor, or of \<^verbatim>\<open>voxels[0]\<close>) ends the loop, and \<^verbatim>\<open>mesh_layers\<close>
  keeps the meshes appended so far.
\<close>

fun create_layers ::
  "extractor \<Rightarrow> (real \<Rightarrow> rgba) \<Rightarrow> voxel_series \<Rightarrow> nat \<Rightarrow> real list \<Rightarrow> mesh_visual list" where
  "create_layers marching_cubes cmap vox idx [] = []"
| "create_layers marching_cubes cmap vox idx (level # levels) =
     (case py_index (frames vox) 0 of
        Inl e \<Rightarrow> []
      | Inr frame0 \<Rightarrow>
          (case marching_cubes (dims vox) frame0 level of
             Inl e \<Rightarrow> []
           | Inr m \<Rightarrow>
               \<lparr>mv_vertices = verts m, mv_faces = faces m,
                mv_vertex_colors = layer_colors cmap vox idx (verts m),
                mv_transform = transform_translate (neg_vec (center_of (dims vox))) []\<rparr>
               # create_layers marching_cubes cmap vox (idx + 1) levels))"

text \<open>
  The values Python passes around in \<^verbatim>\<open>create_particles\<close> and at its call sites: the
  object \<^verbatim>\<open>None\<close> and the three kinds of array. A tuple is a list of such values.
\<close>

datatype pyval =
    PyNone
  | Positions "vec3 list"
  | Colors "rgba list"
  | Sizes "real list"

text \<open>
  The voxel with flat index \<open>f\<close> of a frame of shape \<open>(nx, ny, nz)\<close> has these
  coordinates; \<^verbatim>\<open>np.where(volume > threshold)\<close> lists the matching voxels in the order of
  their flat indices.
\<close>

fun unravel :: "nat \<times> nat \<times> nat \<Rightarrow> nat \<Rightarrow> vec3" where
  "unravel (nx, ny, nz) f =
     (real (f div (ny * nz)), real ((f div nz) mod ny), real (f mod nz))"

definition where_gt :: "frame \<Rightarrow> real \<Rightarrow> nat list" where
  "where_gt volume threshold = filter (\<lambda>f. volume ! f > threshold) [0..<length volume]"

text \<open>
  Lines 57-82. \<open>choice n k\<close> stands for one call of
  \<^verbatim>\<open>np.random.choice(n, k, replace=False)\<close>, which raises ValueError for a negative \<open>k\<close>.
\<close>

definition create_particles ::
  "(nat \<Rightarrow> nat \<Rightarrow> nat list) \<Rightarrow> (real \<Rightarrow> rgba) \<Rightarrow> nat \<times> nat \<times> nat \<Rightarrow> frame \<Rightarrow> real \<Rightarrow> int
     \<Rightarrow> error + pyval list" where
  "create_particles choice cmap shape volume threshold max_points =
     (let high_intensity = where_gt volume threshold
      in if length high_intensity = 0 then Inr [PyNone, PyNone]
         else if min (int (length high_intensity)) max_points < 0 then Inl ValueError
         else
           (let indices =
                  choice (length high_intensity)
                    (nat (min (int (length high_intensity)) max_points));
                selected = map (\<lambda>i. high_intensity ! i) indices;
                positions = map (unravel shape) selected;
                intensities = map (\<lambda>f. volume ! f) selected;
                colors = map (\<lambda>v. set_alpha (v * 0.5) (cmap v)) intensities;
                sizes = map (\<lambda>v. 2 + v * 6) intensities
            in Inr [Positions positions, Colors colors, Sizes sizes]))"

text \<open>\<^verbatim>\<open>pos, cols, szs = ...\<close>: unpacking a tuple into three names.\<close>

fun unpack3 :: "pyval list \<Rightarrow> error + (pyval \<times> pyval \<times> pyval)" where
  "unpack3 [a, b, c] = Inr (a, b, c)"
| "unpack3 _ = Inl ValueError"

text \<open>\<^verbatim>\<open>pos - center\<close> for an array of positions.\<close>

fun minus_center :: "pyval \<Rightarrow> vec3 \<Rightarrow> error + pyval" where
  "minus_center (Positions ps) (cx, cy, cz) =
     Inr (Positions (map (\<lambda>(x, y, z). (x - cx, y - cy, z - cz)) ps))"
| "minus_center _ _ = Inl TypeError"

record markers_visual =
  mk_pos :: pyval
  mk_face_color :: pyval
  mk_size :: pyval
  mk_transform :: transform

text \<open>
  The mutable state of viz_hologram.py: the two one-element lists \<^verbatim>\<open>current_frame\<close> and
  \<^verbatim>\<open>rotation\<close>, the meshes of \<^verbatim>\<open>mesh_layers\<close>, the global \<^verbatim>\<open>particles\<close> (\<open>None\<close>
  for Python's \<^verbatim>\<open>None\<close>) and the transform of \<^verbatim>\<open>elec_markers\<close>.
\<close>

record hstate =
  h_current_frame :: int
  rotation :: real
  mesh_layers :: "mesh_visual list"
  particles :: "markers_visual option"
  elec_transform :: transform

text \<open>
  Lines 26-112, the module body up to the start of the timer. An exception outside the
  \<^verbatim>\<open>try\<close> of the layer loop ends the script.
\<close>

definition init_hologram ::
  "extractor \<Rightarrow> (nat \<Rightarrow> nat \<Rightarrow> nat list) \<Rightarrow> (real \<Rightarrow> rgba) \<Rightarrow> voxel_series \<Rightarrow> error + hstate" where
  "init_hologram marching_cubes choice cmap vox =
     (let layers = create_layers marching_cubes cmap vox 0 iso_levels
      in case py_index (frames vox) 0 of
           Inl e \<Rightarrow> Inl e
         | Inr frame0 \<Rightarrow>
             (case create_particles choice cmap (dims vox) frame0 0.8 3000 of
                Inl e \<Rightarrow> Inl e
              | Inr ret \<Rightarrow>
                  (case unpack3 ret of
                     Inl e \<Rightarrow> Inl e
                   | Inr (pos, cols, szs) \<Rightarrow>
                       Inr \<lparr>h_current_frame = 0, rotation = 0, mesh_layers = layers,
                            particles =
                              (if pos \<noteq> PyNone
                               then Some \<lparr>mk_pos = pos, mk_face_color = cols, mk_size = szs,
                                          mk_transform =
                                            transform_translate (neg_vec (center_of (dims vox))) []\<rparr>
                               else None),
                            elec_transform = []\<rparr>)))"

text \<open>
  Lines 120-130: every layer is updated inside its own \<^verbatim>\<open>try\<close>; when the extractor
  raises, the mesh keeps its data. \<^verbatim>\<open>zip\<close> stops at the shorter of the two lists.
\<close>

definition update_layer ::
  "extractor \<Rightarrow> (real \<Rightarrow> rgba) \<Rightarrow> voxel_series \<Rightarrow> frame \<Rightarrow> nat \<Rightarrow> mesh_visual \<Rightarrow> real
     \<Rightarrow> mesh_visual" where
  "update_layer marching_cubes cmap vox frame_i idx mesh_v level =
     (case marching_cubes (dims vox) frame_i level of
        Inl e \<Rightarrow> mesh_v
      | Inr m \<Rightarrow>
          mesh_v\<lparr>mv_vertices := verts m, mv_faces := faces m,
                 mv_vertex_colors := layer_colors cmap vox idx (verts m)\<rparr>)"

fun update_layers ::
  "extractor \<Rightarrow> (real \<Rightarrow> rgba) \<Rightarrow> voxel_series \<Rightarrow> frame \<Rightarrow> nat \<Rightarrow> mesh_visual list
     \<Rightarrow> real list \<Rightarrow> mesh_visual list" where
  "update_layers marching_cubes cmap vox frame_i idx [] levels = []"
| "update_layers marching_cubes cmap vox frame_i idx (mesh_v # meshes) [] = mesh_v # meshes"
| "update_layers marching_cubes cmap vox frame_i idx (mesh_v # meshes) (level # levels) =
     update_layer marching_cubes cmap vox frame_i idx mesh_v level
     # update_layers marching_cubes cmap vox frame_i (idx + 1) meshes levels"

text \<open>
  Lines 132-136. \<open>center\<close> is the local variable \<^verbatim>\<open>center\<close> of \<^verbatim>\<open>update\<close>:
  \<open>None\<close> while it is unbound, and reading it then raises UnboundLocalError.
\<close>

definition update_particles ::
  "(nat \<Rightarrow> nat \<Rightarrow> nat list) \<Rightarrow> (real \<Rightarrow> rgba) \<Rightarrow> voxel_series \<Rightarrow> frame \<Rightarrow> vec3 option
     \<Rightarrow> hstate \<Rightarrow> hstate \<times> error option" where
  "update_particles choice cmap vox frame_i center s =
     (case particles s of
        None \<Rightarrow> (s, None)
      | Some pv \<Rightarrow>
          (case create_particles choice cmap (dims vox) frame_i 0.8 3000 of
             Inl e \<Rightarrow> (s, Some e)
           | Inr ret \<Rightarrow>
               (case unpack3 ret of
                  Inl e \<Rightarrow> (s, Some e)
                | Inr (pos, cols, szs) \<Rightarrow>
                    if pos \<noteq> PyNone
                    then
                      (case center of
                         None \<Rightarrow> (s, Some UnboundLocalError)
                       | Some c \<Rightarrow>
                           (case minus_center pos c of
                              Inl e \<Rightarrow> (s, Some e)
                            | Inr shifted \<Rightarrow>
                                (s\<lparr>particles :=
                                     Some (pv\<lparr>mk_pos := shifted, mk_face_color := cols,
                                               mk_size := szs\<rparr>)\<rparr>, None)))
                    else (s, None))))"

text \<open>Lines 143-145 (and 148-150) on one transform, lines 153-154 on the electrodes'.\<close>

definition recentre_and_rotate :: "vec3 \<Rightarrow> real \<Rightarrow> transform \<Rightarrow> transform" where
  "recentre_and_rotate center angle t =
     transform_rotate angle (0, 0, 1)
       (transform_translate (neg_vec center) (transform_reset t))"

definition rotate_only :: "real \<Rightarrow> transform \<Rightarrow> transform" where
  "rotate_only angle t = transform_rotate angle (0, 0, 1) (transform_reset t)"

text \<open>
  Lines 138-154. The assignment of line 140 is what makes \<^verbatim>\<open>center\<close> a local variable
  of \<^verbatim>\<open>update\<close>.
\<close>

definition rotate_everything :: "voxel_series \<Rightarrow> real \<Rightarrow> hstate \<Rightarrow> hstate \<times> error option" where
  "rotate_everything vox dt s =
     (let s1 = s\<lparr>rotation := rotation s + dt * ROTATION_SPEED\<rparr>
      in case py_index (frames vox) 0 of
           Inl e \<Rightarrow> (s1, Some e)
         | Inr frame0 \<Rightarrow>
             (let center = center_of (dims vox);
                  s2 = s1\<lparr>mesh_layers :=
                            map (\<lambda>mesh_v. mesh_v\<lparr>mv_transform :=
                                   recentre_and_rotate center (rotation s1) (mv_transform mesh_v)\<rparr>)
                              (mesh_layers s1)\<rparr>;
                  s3 = (case particles s2 of
                          None \<Rightarrow> s2
                        | Some pv \<Rightarrow>
                            s2\<lparr>particles :=
                                 Some (pv\<lparr>mk_transform :=
                                   recentre_and_rotate center (rotation s2) (mk_transform pv)\<rparr>)\<rparr>);
                  s4 = (if SHOW_ELECTRODES
                        then s3\<lparr>elec_transform := rotate_only (rotation s3) (elec_transform s3)\<rparr>
                        else s3)
              in (s4, None)))"

text \<open>
  Lines 114-157, one tick of the timer; \<open>dt\<close> is \<^verbatim>\<open>ev.dt\<close>. The outer \<^verbatim>\<open>except\<close>
  swallows any exception; the second component is the exception that was swallowed. On
  entry the local variable \<^verbatim>\<open>center\<close> is unbound. The frame \<^verbatim>\<open>voxels[i]\<close> is read
  once here; the script reads it again in every layer's \<^verbatim>\<open>try\<close> and on line 134, each
  time with the same index, which is in range.
\<close>

definition update_hologram ::
  "extractor \<Rightarrow> (nat \<Rightarrow> nat \<Rightarrow> nat list) \<Rightarrow> (real \<Rightarrow> rgba) \<Rightarrow> voxel_series \<Rightarrow> real \<Rightarrow> hstate
     \<Rightarrow> hstate \<times> error option" where
  "update_hologram marching_cubes choice cmap vox dt s =
     (if length (frames vox) = 0 then (s, Some ZeroDivisionError)
      else
        (let i = (h_current_frame s + 1) mod int (length (frames vox));
             s1 = s\<lparr>h_current_frame := i\<rparr>;
             center = None
         in case py_index (frames vox) i of
              Inl e \<Rightarrow> (s1, Some e)
            | Inr frame_i \<Rightarrow>
                (let s2 = s1\<lparr>mesh_layers :=
                               update_layers marching_cubes cmap vox frame_i 0
                                 (mesh_layers s1) iso_levels\<rparr>
                 in case update_particles choice cmap vox frame_i center s2 of
                      (s3, Some e) \<Rightarrow> (s3, Some e)
                    | (s3, None) \<Rightarrow> rotate_everything vox dt s3)))"

text \<open>
  The timer: one call of the handler per event. Every tick draws its own random sample, so
  \<open>choices\<close> gives the sampler of each tick; the \<open>k\<close>-th tick uses \<open>choices k\<close>. The
  result is the final state and the exception swallowed by each tick, if any.
\<close>

fun run_hologram ::
  "extractor \<Rightarrow> (nat \<Rightarrow> nat \<Rightarrow> nat \<Rightarrow> nat list) \<Rightarrow> (real \<Rightarrow> rgba) \<Rightarrow> voxel_series \<Rightarrow> nat
     \<Rightarrow> real list \<Rightarrow> hstate \<Rightarrow> hstate \<times> error option list" where
  "run_hologram marching_cubes choices cmap vox k [] s = (s, [])"
| "run_hologram marching_cubes choices cmap vox k (dt # dts) s =
     (case update_hologram marching_cubes (choices k) cmap vox dt s of
        (s1, e) \<Rightarrow>
          (case run_hologram marching_cubes choices cmap vox (k + 1) dts s1 of
             (s2, es) \<Rightarrow> (s2, e # es)))"

section \<open>Notions used to state the properties\<close>

text \<open>All values of a frame lie in the unit interval.\<close>

definition in_unit :: "frame \<Rightarrow> bool" where
  "in_unit frame = (\<forall>v\<in>set frame. 0 \<le> v \<and> v \<le> 1)"

text \<open>
  What is assumed of scipy's \<^verbatim>\<open>gaussian_filter\<close>: every output value is a weighted mean
  of input values, so a frame with values in the unit interval is mapped to such a frame.
\<close>

definition range_preserving :: "(frame \<Rightarrow> real \<Rightarrow> frame) \<Rightarrow> bool" where
  "range_preserving gaussian_filter =
     (\<forall>frame sigma. in_unit frame \<longrightarrow> in_unit (gaussian_filter frame sigma))"

text \<open>
  The stages of \<open>process_voxels\<close> seen from one frame: the series after lines 60-63, the
  rescaling of line 70, lines 73-77 and lines 80-82.
\<close>

definition after_log_mix :: "params \<Rightarrow> frame list \<Rightarrow> frame list" where
  "after_log_mix p voxels_raw =
     (if p Log_scale > 0 then map (map (log_mix (p Log_scale))) voxels_raw else voxels_raw)"

definition rescaled :: "real \<Rightarrow> real \<Rightarrow> frame \<Rightarrow> frame" where
  "rescaled vmin vmax frame = map (\<lambda>x. clip ((x - vmin) / (vmax - vmin)) 0 1) frame"

definition contrast_brightness :: "params \<Rightarrow> frame \<Rightarrow> frame" where
  "contrast_brightness p frame = map (\<lambda>x. clip (x powr p Contrast * p Brightness) 0 1) frame"

definition smoothed :: "(frame \<Rightarrow> real \<Rightarrow> frame) \<Rightarrow> params \<Rightarrow> frame \<Rightarrow> frame" where
  "smoothed gaussian_filter p frame =
     (if p Smoothing > 0 then gaussian_filter frame (p Smoothing) else frame)"

text \<open>
  What is assumed of \<^verbatim>\<open>np.random.choice(n, k, replace=False)\<close> for \<open>k \<le> n\<close>: it
  returns \<open>k\<close> pairwise different indices below \<open>n\<close>.
\<close>

definition sampler_contract :: "(nat \<Rightarrow> nat \<Rightarrow> nat list) \<Rightarrow> bool" where
  "sampler_contract choice =
     (\<forall>n k. k \<le> n \<longrightarrow>
        length (choice n k) = k \<and> distinct (choice n k) \<and> (\<forall>i\<in>set (choice n k). i < n))"



text \<open>The exceptions a tick of the hologram viewer can raise between lines 132 and 136.\<close>

definition swallowed_before_rotation :: "error option \<Rightarrow> bool" where
  "swallowed_before_rotation e = (e = Some UnboundLocalError \<or> e = Some ValueError)"

text \<open>
  \<open>Translate (- center)\<close> followed by \<open>Rotate angle\<close> about the z axis, on a transform
  that was reset.
\<close>

definition fresh_transform :: "vec3 \<Rightarrow> real \<Rightarrow> transform" where
  "fresh_transform center angle = [Translate (neg_vec center), Rotate angle (0, 0, 1)]"

section \<open>Example data\<close>

text \<open>A filter that replaces every voxel by the mean of the frame.\<close>

definition mean_filter :: "frame \<Rightarrow> real \<Rightarrow> frame" where
  "mean_filter frame sigma = map (\<lambda>x. sum_list frame / real (length frame)) frame"

definition example_params :: params where
  "example_params = default_params(Contrast := 2, Percentile_min := 0, Percentile_max := 100)"

text \<open>The default parameters with smoothing switched off.\<close>

definition flat_params :: params where
  "flat_params = default_params(Smoothing := 0)"

text \<open>A sampler that picks the last indices first, and a grey colormap.\<close>

definition last_first :: "nat \<Rightarrow> nat \<Rightarrow> nat list" where
  "last_first n k = take k (rev [0..<n])"

definition grey :: "real \<Rightarrow> rgba" where
  "grey v = (v, v, v, 1)"

text \<open>
  An extractor for the examples. It raises where skimage's range check does (the level lies
  outside the range of the values of the frame) and returns a mesh of one vertex otherwise.
\<close>

definition range_extractor :: extractor where
  "range_extractor shape volume level =
     (if volume = [] \<or> level < Min (set volume) \<or> Max (set volume) < level then Inl ValueError
      else Inr \<lparr>verts = [(0, 0, level)], faces = []\<rparr>)"

text \<open>
  A series of two frames of shape \<open>(2, 2, 2)\<close>, and the state of the hologram viewer
  when its timer starts on this series.
\<close>

definition example_series :: voxel_series where
  "example_series =
     \<lparr>dims = (2, 2, 2), frames = [[0, 0, 0, 0, 0, 0, 0, 1], [0, 0, 0, 0, 0, 0, 0, 0]]\<rparr>"

definition example_layer :: "nat \<Rightarrow> real \<Rightarrow> mesh_visual" where
  "example_layer k level =
     \<lparr>mv_vertices = [(0, 0, level)], mv_faces = [],
      mv_vertex_colors = [(level / 2, level / 2, level / 2, 0.15 + 0.1 * (real k / 5))],
      mv_transform = [Translate (- 1, - 1, - 1)]\<rparr>"

definition example_state0 :: hstate where
  "example_state0 =
     \<lparr>h_current_frame = 0, rotation = 0,
      mesh_layers =
        [example_layer 1 (3 / 10), example_layer 2 (17 / 40), example_layer 3 (11 / 20),
         example_layer 4 (27 / 40), example_layer 5 (4 / 5)],
      particles =
        Some \<lparr>mk_pos = Positions [(1, 1, 1)], mk_face_color = Colors [(1, 1, 1, 1 / 2)],
              mk_size = Sizes [8], mk_transform = [Translate (- 1, - 1, - 1)]\<rparr>,
      elec_transform = []\<rparr>"

text \<open>A series of one frame of shape \<open>(2, 2, 2)\<close> with no value below \<open>0.4\<close>.\<close>

definition low_series :: voxel_series where
  "low_series =
     \<lparr>dims = (2, 2, 2), frames = [[2 / 5, 2 / 5, 2 / 5, 2 / 5, 2 / 5, 2 / 5, 2 / 5, 1]]\<rparr>"

text \<open>
  A state of the interactive viewer with five processed frames of one voxel each and
  \<^verbatim>\<open>frame_skip = 2\<close>.
\<close>

definition five_frames :: istate where
  "five_frames =
     \<lparr>params = default_params(Frame_skip := 2),
      sliders = (\<lambda>name. py_int (default_params name * slider_scale name))(Frame_skip := 2),
      voxels = [[0], [1 / 4], [1 / 2], [3 / 4], [1]],
      current_frame = 0, rotation_angle = 0,
      holo_data = [0], holo_gamma = 2, holo_relative_step_size = 1 / 2,
      holo_clim = (0, 7 / 10),
      holo_transform = [Translate (- (1 / 2), - (1 / 2), - (1 / 2))],
      elecs_transform = [Translate (- (1 / 2), - (1 / 2), - (1 / 2))]\<rparr>"

text \<open>
  A state of the interactive viewer on the raw series \<open>[[0, 2, 4]]\<close>, processed with the
  default parameters and smoothing off.
\<close>

definition baseline :: istate where
  "baseline =
     \<lparr>params = flat_params,
      sliders = (\<lambda>name. py_int (flat_params name * slider_scale name)),
      voxels = [[0, (1 / 2) powr (4 / 5), 1]],
      current_frame = 0, rotation_angle = 0,
      holo_data = [0, (1 / 2) powr (4 / 5), 1],
      holo_gamma = 2, holo_relative_step_size = 1 / 2,
      holo_clim = (0, 7 / 10),
      holo_transform = [Translate (- (1 / 2), - (1 / 2), - (3 / 2))],
      elecs_transform = [Translate (- (1 / 2), - (1 / 2), - (3 / 2))]\<rparr>"

section \<open>Properties of the normalization pipeline\<close>

lemma clip_unit: "0 \<le> clip x 0 1 \<and> clip x 0 1 \<le> 1"
  by (simp add: clip_def)

lemma normalize_frames_length:
  "normalize_frames p fs = Inr out \<Longrightarrow> length out = length fs"
  by (induction fs arbitrary: out) (auto split: sum.splits)

lemma normalize_frames_nth:
  "normalize_frames p fs = Inr out \<Longrightarrow> i < length fs \<Longrightarrow>
   normalize_frame p (fs ! i) = Inr (out ! i)"
proof (induction fs arbitrary: out i)
  case Nil
  then show ?case by simp
next
  case (Cons f fs)
  then show ?case
    by (cases i) (auto split: sum.splits)
qed

lemma normalize_frames_total:
  assumes "0 \<le> p Percentile_min" "p Percentile_min \<le> 100"
    "0 \<le> p Percentile_max" "p Percentile_max \<le> 100"
    and "\<forall>frame\<in>set fs. frame \<noteq> []"
  shows "\<exists>out. normalize_frames p fs = Inr out"
  using assms(5)
proof (induction fs)
  case Nil
  then show ?case by simp
next
  case (Cons f fs)
  then obtain out where out: "normalize_frames p fs = Inr out"
    by auto
  from Cons.prems have "f \<noteq> []" by simp
  with assms(1-4) have "\<exists>g. normalize_frame p f = Inr g"
    by (simp add: normalize_frame_def percentile_def)
  then obtain g where "normalize_frame p f = Inr g" ..
  with out show ?case by simp
qed

text \<open>The pipeline is the per-frame normalization followed by a per-frame map.\<close>

lemma process_voxels_Inr:
  assumes "normalize_frames p (after_log_mix p raw) = Inr nf"
  shows "process_voxels gf p raw = Inr (map (\<lambda>f. smoothed gf p (contrast_brightness p f)) nf)"
  using assms
  by (simp add: process_voxels_def after_log_mix_def smoothed_def contrast_brightness_def
      Let_def comp_def)

lemma process_voxels_Inl:
  assumes "normalize_frames p (after_log_mix p raw) = Inl e"
  shows "process_voxels gf p raw = Inl e"
  using assms by (simp add: process_voxels_def after_log_mix_def Let_def)

lemma process_voxels_cases:
  "process_voxels gf p raw = Inr out \<Longrightarrow>
   \<exists>nf. normalize_frames p (after_log_mix p raw) = Inr nf \<and>
        out = map (\<lambda>f. smoothed gf p (contrast_brightness p f)) nf"
  by (cases "normalize_frames p (after_log_mix p raw)")
     (simp_all add: process_voxels_Inr process_voxels_Inl)

lemma in_unit_contrast_brightness: "in_unit (contrast_brightness p f)"
  by (simp add: in_unit_def contrast_brightness_def clip_unit)

lemma in_unit_smoothed:
  "range_preserving gf \<Longrightarrow> in_unit f \<Longrightarrow> in_unit (smoothed gf p f)"
  by (simp add: smoothed_def range_preserving_def)

lemma length_after_log_mix: "length (after_log_mix p raw) = length raw"
  by (simp add: after_log_mix_def)

lemma after_log_mix_nonempty:
  "\<forall>frame\<in>set raw. frame \<noteq> [] \<Longrightarrow> \<forall>frame\<in>set (after_log_mix p raw). frame \<noteq> []"
  by (auto simp: after_log_mix_def)

lemma sum_list_bounds:
  "\<forall>v\<in>set (xs::real list). 0 \<le> v \<and> v \<le> 1 \<Longrightarrow>
   0 \<le> sum_list xs \<and> sum_list xs \<le> real (length xs)"
  by (induction xs) auto

lemma range_preserving_mean_filter: "range_preserving mean_filter"
proof -
  have "in_unit (mean_filter frame sigma)" if "in_unit frame" for frame sigma
  proof (cases "frame = []")
    case True
    then show ?thesis by (simp add: mean_filter_def in_unit_def)
  next
    case False
    then have "0 < real (length frame)" by simp
    moreover have "0 \<le> sum_list frame \<and> sum_list frame \<le> real (length frame)"
      using that by (simp add: in_unit_def sum_list_bounds)
    ultimately have "0 \<le> sum_list frame / real (length frame) \<and>
        sum_list frame / real (length frame) \<le> 1"
      by (simp add: divide_le_eq)
    then show ?thesis by (simp add: mean_filter_def in_unit_def)
  qed
  then show ?thesis by (simp add: range_preserving_def)
qed

text \<open>
  Claim C1. For every loaded series of non-empty frames with finite values and every
  parameter snapshot whose percentiles are valid, \<open>0 \<le> percentile_min < percentile_max \<le> 100\<close>,
  \<open>process_voxels\<close> returns a series with one frame per input frame, and every value of
  every frame of it lies in \<open>[0, 1]\<close>. The filter of the last step is assumed to map frames
  with values in \<open>[0, 1]\<close> to such frames.
\<close>

theorem process_voxels_unit_interval:
  assumes "range_preserving gaussian_filter"
    and "0 \<le> p Percentile_min" and "p Percentile_min < p Percentile_max"
    and "p Percentile_max \<le> 100"
    and "\<forall>frame\<in>set loaded. frame \<noteq> []"
  shows "\<exists>out. process_voxels gaussian_filter p (voxels_raw_of loaded) = Inr out \<and>
           length out = length loaded \<and> (\<forall>frame\<in>set out. in_unit frame)"
proof -
  let ?raw = "voxels_raw_of loaded"
  have "\<forall>frame\<in>set ?raw. frame \<noteq> []"
    using assms(5) by (auto simp: voxels_raw_of_def)
  then have "\<forall>frame\<in>set (after_log_mix p ?raw). frame \<noteq> []"
    by (rule after_log_mix_nonempty)
  with assms(2-4) obtain nf where nf: "normalize_frames p (after_log_mix p ?raw) = Inr nf"
    using normalize_frames_total [of p "after_log_mix p ?raw"] by auto
  have len: "length nf = length loaded"
    using normalize_frames_length [OF nf] by (simp add: length_after_log_mix voxels_raw_of_def)
  have "process_voxels gaussian_filter p ?raw =
          Inr (map (\<lambda>f. smoothed gaussian_filter p (contrast_brightness p f)) nf)"
    by (rule process_voxels_Inr [OF nf])
  moreover have
    "\<forall>frame\<in>set (map (\<lambda>f. smoothed gaussian_filter p (contrast_brightness p f)) nf).
       in_unit frame"
    using assms(1) by (simp add: in_unit_smoothed in_unit_contrast_brightness)
  ultimately show ?thesis using len by simp
qed

text \<open>
  The theorem at a series of two frames, the second of them constant, with the mean filter
  and smoothing switched on.
\<close>

theorem process_voxels_unit_interval_witness:
  "process_voxels mean_filter example_params (voxels_raw_of [[0, -2, 4], [3, 3, 3]])
     = Inr [[5 / 12, 5 / 12, 5 / 12], [1, 1, 1]]
   \<and> (\<exists>out. process_voxels mean_filter example_params (voxels_raw_of [[0, -2, 4], [3, 3, 3]])
              = Inr out \<and>
            length out = length [[0, -2, 4], [3, 3, 3::real]] \<and>
            (\<forall>frame\<in>set out. in_unit frame))"
proof -
  have "process_voxels mean_filter example_params (voxels_raw_of [[0, -2, 4], [3, 3, 3]])
     = Inr [[5 / 12, 5 / 12, 5 / 12], [1, 1, 1]]"
    by (simp add: process_voxels_def example_params_def voxels_raw_of_def normalize_frame_def
        percentile_def quantile_linear_def clip_def power2_eq_square mean_filter_def)
  moreover have "\<forall>frame\<in>set [[0, -2, 4], [3, 3, 3::real]]. frame \<noteq> []" by simp
  then have
    "\<exists>out. process_voxels mean_filter example_params (voxels_raw_of [[0, -2, 4], [3, 3, 3]])
            = Inr out \<and>
          length out = length [[0, -2, 4], [3, 3, 3::real]] \<and>
          (\<forall>frame\<in>set out. in_unit frame)"
    by (intro process_voxels_unit_interval range_preserving_mean_filter)
       (simp_all add: example_params_def)
  ultimately show ?thesis by blast
qed

section \<open>Frames whose percentile bounds collapse\<close>

lemma normalize_frame_cases:
  assumes "percentile frame (p Percentile_min) (p Percentile_max) = Inr (vmin, vmax)"
  shows "normalize_frame p frame = Inr (if vmax > vmin then rescaled vmin vmax frame else frame)"
  using assms by (simp add: normalize_frame_def rescaled_def)

text \<open>A constant frame is such a frame: all its percentiles are its value.\<close>

lemma sort_replicate: "sort (replicate n (c::real)) = replicate n c"
  by (induction n) (simp_all add: insort_is_Cons)

lemma quantile_linear_constant:
  assumes "0 < n" "0 \<le> q" "q \<le> 100"
  shows "quantile_linear (replicate n c) q = c"
proof -
  have "q / 100 \<le> 1" using assms by simp
  then have "real (n - 1) * (q / 100) \<le> real (n - 1) * 1"
    by (rule mult_left_mono) simp
  then have "real (n - 1) * (q / 100) \<le> real (n - 1)" by simp
  then have "\<lfloor>real (n - 1) * (q / 100)\<rfloor> \<le> int (n - 1)"
    by linarith
  then have "nat \<lfloor>real (n - 1) * (q / 100)\<rfloor> < n"
    using assms(1) by linarith
  then show ?thesis
    using assms(1) by (simp add: quantile_linear_def sort_replicate Let_def)
qed

lemma percentile_constant:
  assumes "0 < n" "0 \<le> qmin" "qmin \<le> 100" "0 \<le> qmax" "qmax \<le> 100"
  shows "percentile (replicate n c) qmin qmax = Inr (c, c)"
  using assms by (simp add: percentile_def quantile_linear_constant)

text \<open>What the pipeline does to the frame at position \<open>i\<close>.\<close>

lemma frame_through_pipeline:
  assumes "process_voxels gaussian_filter p voxels_raw = Inr out"
    and "i < length voxels_raw"
    and "percentile (after_log_mix p voxels_raw ! i) (p Percentile_min) (p Percentile_max)
           = Inr (vmin, vmax)"
  shows "out ! i =
           smoothed gaussian_filter p
             (contrast_brightness p
               (if vmax > vmin then rescaled vmin vmax (after_log_mix p voxels_raw ! i)
                else after_log_mix p voxels_raw ! i))"
proof -
  from assms(1) obtain nf where
    nf: "normalize_frames p (after_log_mix p voxels_raw) = Inr nf" and
    out: "out = map (\<lambda>f. smoothed gaussian_filter p (contrast_brightness p f)) nf"
    using process_voxels_cases by blast
  have i: "i < length (after_log_mix p voxels_raw)"
    using assms(2) by (simp add: length_after_log_mix)
  then have "normalize_frame p (after_log_mix p voxels_raw ! i) = Inr (nf ! i)"
    using nf by (rule normalize_frames_nth [rotated])
  then have "nf ! i = (if vmax > vmin then rescaled vmin vmax (after_log_mix p voxels_raw ! i)
                else after_log_mix p voxels_raw ! i)"
    using normalize_frame_cases [OF assms(3)] by simp
  moreover have "i < length nf"
    using normalize_frames_length [OF nf] i by simp
  ultimately show ?thesis by (simp add: out)
qed




section \<open>The particle sampler\<close>

lemma where_gt_empty:
  "\<forall>v\<in>set volume. \<not> v > threshold \<Longrightarrow> where_gt volume threshold = []"
  by (auto simp: where_gt_def filter_empty_conv)

lemma distinct_where_gt: "distinct (where_gt volume threshold)"
  by (simp add: where_gt_def)

lemma set_where_gt:
  "set (where_gt volume threshold) = {f. f < length volume \<and> volume ! f > threshold}"
  by (auto simp: where_gt_def)

lemma distinct_selection:
  assumes "distinct xs" "distinct js" "\<forall>j\<in>set js. j < length xs"
  shows "distinct (map (\<lambda>i. xs ! i) js)"
proof -
  have "inj_on (\<lambda>i. xs ! i) (set js)"
    using assms(1,3) by (auto simp: inj_on_def nth_eq_iff_index_eq)
  with assms(2) show ?thesis by (simp add: distinct_map)
qed

lemma full_selection:
  assumes "distinct js" "\<forall>j\<in>set js. j < length xs" "length js = length xs"
  shows "set (map (\<lambda>i. xs ! i) js) = set xs"
proof -
  have "set js \<subseteq> {..<length xs}" using assms(2) by auto
  moreover have "card (set js) = card {..<length xs}"
    using assms(1,3) by (simp add: distinct_card)
  ultimately have "set js = {..<length xs}"
    by (simp add: card_subset_eq)
  then have "(\<lambda>i. xs ! i) ` set js = set xs"
    by (auto simp: set_conv_nth)
  then show ?thesis by simp
qed

lemma sampler_contract_last_first: "sampler_contract last_first"
  by (auto simp: sampler_contract_def last_first_def dest: in_set_takeD)

text \<open>
  Claim C10. For every frame, threshold and \<open>max_points \<ge> 0\<close>, with a sampler that draws
  without replacement: when no voxel exceeds the threshold the sampler returns the pair
  \<^verbatim>\<open>(None, None)\<close> and no entry; otherwise it returns positions, colours and sizes of a
  selection \<open>sel\<close> of pairwise different voxels above the threshold, exactly
  \<open>min n max_points\<close> of them where \<open>n\<close> voxels are above the threshold, and every such
  voxel once when \<open>n \<le> max_points\<close>.
\<close>

theorem create_particles_at_most_max_points:
  assumes "sampler_contract choice" and "0 \<le> max_points"
  shows "(length (where_gt volume threshold) = 0 \<longrightarrow>
            create_particles choice cmap shape volume threshold max_points
              = Inr [PyNone, PyNone])
       \<and> (0 < length (where_gt volume threshold) \<longrightarrow>
            (\<exists>sel. create_particles choice cmap shape volume threshold max_points
                      = Inr [Positions (map (unravel shape) sel),
                             Colors (map (\<lambda>f. set_alpha (volume ! f * 0.5) (cmap (volume ! f))) sel),
                             Sizes (map (\<lambda>f. 2 + volume ! f * 6) sel)]
                  \<and> distinct sel
                  \<and> set sel \<subseteq> set (where_gt volume threshold)
                  \<and> int (length sel) = min (int (length (where_gt volume threshold))) max_points
                  \<and> (int (length (where_gt volume threshold)) \<le> max_points \<longrightarrow>
                       set sel = set (where_gt volume threshold))))"
proof (intro conjI impI)
  assume "length (where_gt volume threshold) = 0"
  then show "create_particles choice cmap shape volume threshold max_points
              = Inr [PyNone, PyNone]"
    by (simp add: create_particles_def)
next
  let ?high = "where_gt volume threshold"
  let ?n = "length ?high"
  let ?k = "nat (min (int ?n) max_points)"
  let ?js = "choice ?n ?k"
  let ?sel = "map (\<lambda>i. ?high ! i) ?js"
  assume pos: "0 < ?n"
  have k: "?k \<le> ?n" by simp
  with assms(1) have len: "length ?js = ?k" and dist: "distinct ?js"
    and bound: "\<forall>j\<in>set ?js. j < ?n"
    by (simp_all add: sampler_contract_def)
  have res: "create_particles choice cmap shape volume threshold max_points
          = Inr [Positions (map (unravel shape) ?sel),
                 Colors (map (\<lambda>f. set_alpha (volume ! f * 0.5) (cmap (volume ! f))) ?sel),
                 Sizes (map (\<lambda>f. 2 + volume ! f * 6) ?sel)]"
    using pos assms(2) by (simp add: create_particles_def Let_def comp_def)
  have d: "distinct ?sel"
    using distinct_where_gt dist bound by (rule distinct_selection)
  have sub: "set ?sel \<subseteq> set ?high"
    using bound by auto
  have l: "int (length ?sel) = min (int ?n) max_points"
    using len assms(2) by simp
  have full: "set ?sel = set ?high" if "int ?n \<le> max_points"
  proof -
    from that have "?k = ?n" by simp
    with len have "length ?js = ?n" by simp
    with dist bound show ?thesis by (rule full_selection)
  qed
  show "\<exists>sel. create_particles choice cmap shape volume threshold max_points
                      = Inr [Positions (map (unravel shape) sel),
                             Colors (map (\<lambda>f. set_alpha (volume ! f * 0.5) (cmap (volume ! f))) sel),
                             Sizes (map (\<lambda>f. 2 + volume ! f * 6) sel)]
                  \<and> distinct sel
                  \<and> set sel \<subseteq> set (where_gt volume threshold)
                  \<and> int (length sel) = min (int (length (where_gt volume threshold))) max_points
                  \<and> (int (length (where_gt volume threshold)) \<le> max_points \<longrightarrow>
                       set sel = set (where_gt volume threshold))"
    using res d sub l full by blast
qed

text \<open>
  The theorem at a frame of shape \<open>(1, 2, 2)\<close> with three voxels above \<open>0.8\<close> and
  \<open>max_points = 2\<close>.
\<close>

theorem create_particles_at_most_max_points_witness:
  "create_particles last_first grey (1, 2, 2) [9 / 10, 1 / 2, 1, 17 / 20] (4 / 5) 2
     = Inr [Positions [(0, 1, 1), (0, 1, 0)],
            Colors [(17 / 20, 17 / 20, 17 / 20, 17 / 40), (1, 1, 1, 1 / 2)],
            Sizes [71 / 10, 8]]
   \<and> where_gt [9 / 10, 1 / 2, 1, 17 / 20] (4 / 5) = [0, 2, 3]
   \<and> (\<exists>sel. create_particles last_first grey (1, 2, 2) [9 / 10, 1 / 2, 1, 17 / 20] (4 / 5) 2
               = Inr [Positions (map (unravel (1, 2, 2)) sel),
                      Colors (map (\<lambda>f. set_alpha ([9 / 10, 1 / 2, 1, 17 / 20] ! f * 0.5)
                                         (grey ([9 / 10, 1 / 2, 1, 17 / 20] ! f))) sel),
                      Sizes (map (\<lambda>f. 2 + [9 / 10, 1 / 2, 1, 17 / 20] ! f * 6) sel)]
             \<and> distinct sel \<and> length sel = 2)"
proof -
  have high: "where_gt [9 / 10, 1 / 2, 1, 17 / 20] (4 / 5) = [0, 2, 3]"
    by (simp add: where_gt_def upt_rec)
  have run: "create_particles last_first grey (1, 2, 2) [9 / 10, 1 / 2, 1, 17 / 20] (4 / 5) 2
     = Inr [Positions [(0, 1, 1), (0, 1, 0)],
            Colors [(17 / 20, 17 / 20, 17 / 20, 17 / 40), (1, 1, 1, 1 / 2)],
            Sizes [71 / 10, 8]]"
    by (simp add: create_particles_def where_gt_def last_first_def grey_def upt_rec Let_def)
  have "(0::int) \<le> 2" by simp
  with sampler_contract_last_first have
    "0 < length (where_gt [9 / 10, 1 / 2, 1, 17 / 20] (4 / 5)) \<longrightarrow>
       (\<exists>sel. create_particles last_first grey (1, 2, 2) [9 / 10, 1 / 2, 1, 17 / 20] (4 / 5) 2
               = Inr [Positions (map (unravel (1, 2, 2)) sel),
                      Colors (map (\<lambda>f. set_alpha ([9 / 10, 1 / 2, 1, 17 / 20] ! f * 0.5)
                                         (grey ([9 / 10, 1 / 2, 1, 17 / 20] ! f))) sel),
                      Sizes (map (\<lambda>f. 2 + [9 / 10, 1 / 2, 1, 17 / 20] ! f * 6) sel)]
             \<and> distinct sel
             \<and> set sel \<subseteq> set (where_gt [9 / 10, 1 / 2, 1, 17 / 20] (4 / 5))
             \<and> int (length sel)
                 = min (int (length (where_gt [9 / 10, 1 / 2, 1, 17 / 20] (4 / 5)))) 2
             \<and> (int (length (where_gt [9 / 10, 1 / 2, 1, 17 / 20] (4 / 5))) \<le> 2 \<longrightarrow>
                  set sel = set (where_gt [9 / 10, 1 / 2, 1, 17 / 20] (4 / 5))))"
    by (rule create_particles_at_most_max_points [THEN conjunct2])
  then have
    "\<exists>sel. create_particles last_first grey (1, 2, 2) [9 / 10, 1 / 2, 1, 17 / 20] (4 / 5) 2
               = Inr [Positions (map (unravel (1, 2, 2)) sel),
                      Colors (map (\<lambda>f. set_alpha ([9 / 10, 1 / 2, 1, 17 / 20] ! f * 0.5)
                                         (grey ([9 / 10, 1 / 2, 1, 17 / 20] ! f))) sel),
                      Sizes (map (\<lambda>f. 2 + [9 / 10, 1 / 2, 1, 17 / 20] ! f * 6) sel)]
             \<and> distinct sel \<and> length sel = 2"
    unfolding high by auto
  with run high show ?thesis by blast
qed

text \<open>
  Claim C4, at the frame of the specification: for an all-zero frame of shape
  \<open>(4, 4, 4)\<close> and threshold \<open>0.8\<close> the sampler returns the pair \<^verbatim>\<open>(None, None)\<close>,
  not a triple of empty positions, colours and sizes; unpacking the pair into three names
  raises ValueError, and with such a first frame the script ends on line 85.
\<close>

theorem create_particles_zero_frame:
  "create_particles choice cmap (4, 4, 4) (replicate 64 0) 0.8 3000 = Inr [PyNone, PyNone]
   \<and> unpack3 [PyNone, PyNone] = Inl ValueError
   \<and> init_hologram marching_cubes choice cmap \<lparr>dims = (4, 4, 4), frames = [replicate 64 0]\<rparr>
       = Inl ValueError"
proof -
  have "where_gt (replicate 64 0) 0.8 = []"
    by (rule where_gt_empty) simp
  then have "create_particles choice cmap (4, 4, 4) (replicate 64 0) 0.8 3000
      = Inr [PyNone, PyNone]"
    by (simp add: create_particles_def)
  then show ?thesis
    by (simp add: init_hologram_def py_index_def)
qed

section \<open>The isosurface layers of the hologram viewer\<close>












lemma fst_run_hologram_Cons:
  "fst (run_hologram marching_cubes choices cmap vox k (dt # dts) s) =
   fst (run_hologram marching_cubes choices cmap vox (k + 1) dts
         (fst (update_hologram marching_cubes (choices k) cmap vox dt s)))"
  by (simp split: prod.splits)



subsection \<open>The viewer on the example series\<close>

lemma iso_levels_eq: "iso_levels = [3 / 10, 17 / 40, 11 / 20, 27 / 40, 4 / 5]"
  by (simp add: iso_levels_def linspace_def NUM_LAYERS_def upt_rec)

lemma example_series_sel:
  "dims example_series = (2, 2, 2)"
  "frames example_series = [[0, 0, 0, 0, 0, 0, 0, 1], [0, 0, 0, 0, 0, 0, 0, 0]]"
  by (simp_all add: example_series_def)

lemma create_layers_example:
  "create_layers range_extractor grey example_series 0 iso_levels = mesh_layers example_state0"
  by (simp add: iso_levels_eq example_series_sel range_extractor_def py_index_def
      layer_colors_def NUM_LAYERS_def grey_def transform_translate_def example_state0_def
      example_layer_def)

lemma init_hologram_example:
  "init_hologram range_extractor last_first grey example_series = Inr example_state0"
  unfolding init_hologram_def create_layers_example
  by (simp add: example_series_sel py_index_def create_particles_def where_gt_def
      last_first_def grey_def transform_translate_def example_state0_def upt_rec)

lemma update_layers_example_0:
  "update_layers range_extractor grey example_series [0, 0, 0, 0, 0, 0, 0, 1] 0
     (mesh_layers example_state0) iso_levels
   = mesh_layers example_state0"
  by (simp add: iso_levels_eq example_series_sel range_extractor_def update_layer_def
      layer_colors_def NUM_LAYERS_def grey_def example_state0_def example_layer_def)

lemma update_layers_example_1:
  "update_layers range_extractor grey example_series [0, 0, 0, 0, 0, 0, 0, 0] 0
     (mesh_layers example_state0) iso_levels
   = mesh_layers example_state0"
  by (simp add: iso_levels_eq range_extractor_def update_layer_def example_state0_def)

lemma particles_example: "particles example_state0 \<noteq> None"
  by (simp add: example_state0_def)

lemma update_hologram_example_1:
  "update_hologram range_extractor last_first grey example_series dt example_state0
   = (example_state0\<lparr>h_current_frame := 1\<rparr>, Some ValueError)"
proof -
  have "h_current_frame example_state0 = 0" "particles example_state0 \<noteq> None"
    by (simp_all add: example_state0_def)
  then show ?thesis
    unfolding update_hologram_def
    by (auto simp add: example_series_sel py_index_def update_layers_example_1
        update_particles_def create_particles_def where_gt_def)
qed

lemma update_hologram_example_2:
  "update_hologram range_extractor last_first grey example_series dt
     (example_state0\<lparr>h_current_frame := 1\<rparr>)
   = (example_state0, Some UnboundLocalError)"
proof -
  have "h_current_frame example_state0 = 0" "particles example_state0 \<noteq> None"
    by (simp_all add: example_state0_def)
  then show ?thesis
    unfolding update_hologram_def
    by (auto simp add: example_series_sel py_index_def update_layers_example_0
        update_particles_def create_particles_def where_gt_def last_first_def upt_rec)
qed

lemma run_hologram_example:
  "run_hologram range_extractor (\<lambda>k. last_first) grey example_series 0 [dt1, dt2] example_state0
   = (example_state0, [Some ValueError, Some UnboundLocalError])"
  by (simp add: update_hologram_example_1 update_hologram_example_2)



section \<open>One tick of the hologram viewer\<close>

lemma py_index_mod:
  assumes "xs \<noteq> []"
  shows "py_index xs (a mod int (length xs)) = Inr (xs ! nat (a mod int (length xs)))"
proof -
  have "0 < int (length xs)" using assms by simp
  then have "0 \<le> a mod int (length xs)" "a mod int (length xs) < int (length xs)"
    by simp_all
  then show ?thesis by (simp add: py_index_def)
qed

lemma fst_update_particles_unbound:
  "fst (update_particles choice cmap vox frame_i None s) = s"
  by (simp add: update_particles_def split: option.splits sum.splits prod.splits)

text \<open>The tick on a non-empty series, in terms of its three sections.\<close>

lemma update_hologram_sections:
  assumes "frames vox \<noteq> []"
  shows "update_hologram marching_cubes choice cmap vox dt s =
     (let i = (h_current_frame s + 1) mod int (length (frames vox));
          frame_i = frames vox ! nat i;
          s2 = s\<lparr>h_current_frame := i,
                 mesh_layers := update_layers marching_cubes cmap vox frame_i 0
                                  (mesh_layers s) iso_levels\<rparr>
      in case snd (update_particles choice cmap vox frame_i None s2) of
           Some e \<Rightarrow> (s2, Some e)
         | None \<Rightarrow> rotate_everything vox dt s2)"
proof -
  let ?i = "(h_current_frame s + 1) mod int (length (frames vox))"
  let ?frame = "frames vox ! nat ?i"
  let ?s2 = "s\<lparr>h_current_frame := ?i,
                mesh_layers := update_layers marching_cubes cmap vox ?frame 0
                                 (mesh_layers s) iso_levels\<rparr>"
  have idx: "py_index (frames vox) ?i = Inr ?frame"
    using assms by (rule py_index_mod)
  obtain s3 e where up: "update_particles choice cmap vox ?frame None ?s2 = (s3, e)"
    by (cases "update_particles choice cmap vox ?frame None ?s2")
  then have "s3 = ?s2"
    using fst_update_particles_unbound [of choice cmap vox ?frame ?s2] by simp
  with up have "update_particles choice cmap vox ?frame None ?s2 = (?s2, e)" by simp
  then show ?thesis
    using assms idx by (cases e) (simp_all add: update_hologram_def Let_def)
qed

lemma length_update_layers:
  "length (update_layers marching_cubes cmap vox frame_i idx meshes levels) = length meshes"
  by (induction marching_cubes cmap vox frame_i idx meshes levels rule: update_layers.induct)
     simp_all

lemma length_mesh_layers_rotate_everything:
  "length (mesh_layers (fst (rotate_everything vox dt s))) = length (mesh_layers s)"
  by (simp add: rotate_everything_def Let_def split: sum.splits option.splits)

lemma length_mesh_layers_update_hologram:
  "length (mesh_layers (fst (update_hologram marching_cubes choice cmap vox dt s)))
   = length (mesh_layers s)"
proof (cases "frames vox = []")
  case True
  then show ?thesis by (simp add: update_hologram_def)
next
  case False
  then show ?thesis
    by (simp add: update_hologram_sections Let_def length_update_layers
        length_mesh_layers_rotate_everything split: option.splits)
qed

text \<open>In the tick, every layer is updated from its own level, whatever the other levels do.\<close>

lemma update_layers_nth:
  "j < length meshes \<Longrightarrow> j < length levels \<Longrightarrow>
   update_layers marching_cubes cmap vox frame_i idx meshes levels ! j
   = update_layer marching_cubes cmap vox frame_i (idx + j) (meshes ! j) (levels ! j)"
proof (induction marching_cubes cmap vox frame_i idx meshes levels arbitrary: j
    rule: update_layers.induct)
  case (1 marching_cubes cmap vox frame_i idx levels)
  then show ?case by simp
next
  case (2 marching_cubes cmap vox frame_i idx mesh_v meshes)
  then show ?case by simp
next
  case (3 marching_cubes cmap vox frame_i idx mesh_v meshes level levels)
  then show ?case by (cases j) simp_all
qed

lemma create_particles_default:
  "create_particles choice cmap shape volume 0.8 3000 = Inr [PyNone, PyNone]
   \<or> (\<exists>ps cs ss. create_particles choice cmap shape volume 0.8 3000
          = Inr [Positions ps, Colors cs, Sizes ss])"
  by (auto simp: create_particles_def Let_def)

lemma update_particles_raises:
  assumes "particles s \<noteq> None"
  shows "update_particles choice cmap vox frame_i None s = (s, Some ValueError)
       \<or> update_particles choice cmap vox frame_i None s = (s, Some UnboundLocalError)"
proof -
  from assms obtain pv where pv: "particles s = Some pv" by auto
  from create_particles_default [of choice cmap "dims vox" frame_i]
  show ?thesis
  proof
    assume "create_particles choice cmap (dims vox) frame_i 0.8 3000 = Inr [PyNone, PyNone]"
    with pv show ?thesis by (simp add: update_particles_def)
  next
    assume "\<exists>ps cs ss. create_particles choice cmap (dims vox) frame_i 0.8 3000
          = Inr [Positions ps, Colors cs, Sizes ss]"
    then obtain ps cs ss where
      "create_particles choice cmap (dims vox) frame_i 0.8 3000
          = Inr [Positions ps, Colors cs, Sizes ss]" by blast
    with pv show ?thesis by (simp add: update_particles_def)
  qed
qed

lemma update_layers_transforms:
  "map mv_transform (update_layers marching_cubes cmap vox frame_i idx meshes levels)
   = map mv_transform meshes"
  by (induction marching_cubes cmap vox frame_i idx meshes levels rule: update_layers.induct)
     (simp_all add: update_layer_def split: sum.splits)

text \<open>One tick when the particle set exists: the handler raises before line 139.\<close>

lemma update_hologram_raises:
  assumes "particles s \<noteq> None" and "frames vox \<noteq> []"
  shows "\<exists>s' e. update_hologram marching_cubes choice cmap vox dt s = (s', Some e)
           \<and> (e = ValueError \<or> e = UnboundLocalError)
           \<and> rotation s' = rotation s
           \<and> map mv_transform (mesh_layers s') = map mv_transform (mesh_layers s)
           \<and> particles s' = particles s
           \<and> elec_transform s' = elec_transform s"
proof -
  let ?i = "(h_current_frame s + 1) mod int (length (frames vox))"
  let ?frame = "frames vox ! nat ?i"
  let ?s2 = "s\<lparr>h_current_frame := ?i,
                mesh_layers := update_layers marching_cubes cmap vox ?frame 0
                                 (mesh_layers s) iso_levels\<rparr>"
  have idx: "py_index (frames vox) ?i = Inr ?frame"
    using assms(2) by (rule py_index_mod)
  have "particles ?s2 \<noteq> None" using assms(1) by simp
  then have "update_particles choice cmap vox ?frame None ?s2 = (?s2, Some ValueError)
       \<or> update_particles choice cmap vox ?frame None ?s2 = (?s2, Some UnboundLocalError)"
    by (rule update_particles_raises)
  then have "update_hologram marching_cubes choice cmap vox dt s = (?s2, Some ValueError)
       \<or> update_hologram marching_cubes choice cmap vox dt s = (?s2, Some UnboundLocalError)"
    using assms(2) idx by (auto simp: update_hologram_def Let_def)
  then show ?thesis
    by (auto simp: update_layers_transforms)
qed

lemma run_hologram_frozen:
  assumes "particles s \<noteq> None" and "frames vox \<noteq> []"
  shows "\<exists>s' es. run_hologram marching_cubes choices cmap vox k dts s = (s', es)
           \<and> length es = length dts
           \<and> list_all swallowed_before_rotation es
           \<and> rotation s' = rotation s
           \<and> map mv_transform (mesh_layers s') = map mv_transform (mesh_layers s)
           \<and> particles s' = particles s
           \<and> elec_transform s' = elec_transform s"
  using assms(1)
proof (induction dts arbitrary: s k)
  case Nil
  then show ?case by simp
next
  case (Cons dt dts)
  from update_hologram_raises [OF Cons.prems assms(2), of marching_cubes "choices k" cmap dt]
  obtain s1 e where
    step: "update_hologram marching_cubes (choices k) cmap vox dt s = (s1, Some e)" and
    e: "e = ValueError \<or> e = UnboundLocalError" and
    keep: "rotation s1 = rotation s"
      "map mv_transform (mesh_layers s1) = map mv_transform (mesh_layers s)"
      "particles s1 = particles s" "elec_transform s1 = elec_transform s"
    by blast
  from keep(3) Cons.prems have "particles s1 \<noteq> None" by simp
  from Cons.IH [OF this, of "k + 1"] obtain s' es where
    rest: "run_hologram marching_cubes choices cmap vox (k + 1) dts s1 = (s', es)"
      "length es = length dts" "list_all swallowed_before_rotation es"
      "rotation s' = rotation s1"
      "map mv_transform (mesh_layers s') = map mv_transform (mesh_layers s1)"
      "particles s' = particles s1" "elec_transform s' = elec_transform s1"
    by blast
  have "run_hologram marching_cubes choices cmap vox k (dt # dts) s = (s', Some e # es)"
    using step rest(1) by simp
  moreover have "swallowed_before_rotation (Some e)"
    using e by (auto simp: swallowed_before_rotation_def)
  ultimately show ?case
    using rest keep by simp
qed

lemma create_layers_transforms:
  "map mv_transform (create_layers marching_cubes cmap vox idx levels)
   = replicate (length (create_layers marching_cubes cmap vox idx levels))
       [Translate (neg_vec (center_of (dims vox)))]"
  by (induction levels arbitrary: idx)
     (auto simp: transform_translate_def split: sum.splits)

lemma init_hologram_facts:
  assumes "init_hologram marching_cubes choice cmap vox = Inr s0"
  shows "frames vox \<noteq> []" and "particles s0 \<noteq> None" and "rotation s0 = 0"
    and "elec_transform s0 = []"
    and "map mv_transform (mesh_layers s0)
         = replicate (length (mesh_layers s0)) [Translate (neg_vec (center_of (dims vox)))]"
    and "map_option mk_transform (particles s0)
         = Some [Translate (neg_vec (center_of (dims vox)))]"
proof -
  from assms obtain frame0 where f0: "py_index (frames vox) 0 = Inr frame0"
    by (auto simp: init_hologram_def Let_def split: sum.splits)
  then show "frames vox \<noteq> []"
    by (auto simp: py_index_def)
  from create_particles_default [of choice cmap "dims vox" frame0]
  have "\<exists>ps cs ss. create_particles choice cmap (dims vox) frame0 0.8 3000
          = Inr [Positions ps, Colors cs, Sizes ss]"
  proof
    assume "create_particles choice cmap (dims vox) frame0 0.8 3000 = Inr [PyNone, PyNone]"
    with assms f0 show ?thesis by (simp add: init_hologram_def)
  qed
  then obtain ps cs ss where
    cp: "create_particles choice cmap (dims vox) frame0 0.8 3000
          = Inr [Positions ps, Colors cs, Sizes ss]" by blast
  from assms f0 cp have s0: "s0 =
      \<lparr>h_current_frame = 0, rotation = 0,
       mesh_layers = create_layers marching_cubes cmap vox 0 iso_levels,
       particles = Some \<lparr>mk_pos = Positions ps, mk_face_color = Colors cs, mk_size = Sizes ss,
                          mk_transform = transform_translate (neg_vec (center_of (dims vox))) []\<rparr>,
       elec_transform = []\<rparr>"
    by (simp add: init_hologram_def)
  show "particles s0 \<noteq> None" "rotation s0 = 0" "elec_transform s0 = []"
    by (simp_all add: s0)
  show "map mv_transform (mesh_layers s0)
         = replicate (length (mesh_layers s0)) [Translate (neg_vec (center_of (dims vox)))]"
    using create_layers_transforms [of marching_cubes cmap vox 0 iso_levels] by (simp add: s0)
  show "map_option mk_transform (particles s0)
         = Some [Translate (neg_vec (center_of (dims vox)))]"
    by (simp add: s0 transform_translate_def)
qed

text \<open>
  Claim C3. When the module body has run and the initial particle set was created, every
  tick raises UnboundLocalError or ValueError before it reaches the rotation section, and
  the exception is swallowed: after any number of ticks the accumulated rotation angle is
  still \<open>0\<close> and every layer still has the transform the module body gave it.
\<close>

theorem update_hologram_never_rotates:
  assumes "init_hologram marching_cubes choice cmap vox = Inr s0"
    and "particles s0 \<noteq> None"
  shows "\<exists>s es. run_hologram marching_cubes choices cmap vox 0 dts s0 = (s, es)
           \<and> length es = length dts
           \<and> list_all swallowed_before_rotation es
           \<and> rotation s = 0
           \<and> map mv_transform (mesh_layers s)
               = replicate (length (mesh_layers s)) [Translate (neg_vec (center_of (dims vox)))]
           \<and> map_option mk_transform (particles s)
               = Some [Translate (neg_vec (center_of (dims vox)))]
           \<and> elec_transform s = []"
proof -
  note init = init_hologram_facts [OF assms(1)]
  from run_hologram_frozen [OF assms(2) init(1), of marching_cubes choices cmap 0 dts]
  obtain s es where
    run: "run_hologram marching_cubes choices cmap vox 0 dts s0 = (s, es)"
      "length es = length dts" "list_all swallowed_before_rotation es"
      "rotation s = rotation s0"
      "map mv_transform (mesh_layers s) = map mv_transform (mesh_layers s0)"
      "particles s = particles s0" "elec_transform s = elec_transform s0"
    by blast
  have "length (mesh_layers s) = length (mesh_layers s0)"
    using run(5) by (metis length_map)
  with run init show ?thesis by simp
qed

text \<open>The theorem on the example series, for two ticks: one exception of each kind.\<close>

theorem update_hologram_never_rotates_witness:
  "init_hologram range_extractor last_first grey example_series = Inr example_state0
   \<and> particles example_state0 \<noteq> None
   \<and> run_hologram range_extractor (\<lambda>k. last_first) grey example_series 0 [1 / 30, 1 / 30]
         example_state0
       = (example_state0, [Some ValueError, Some UnboundLocalError])
   \<and> rotation example_state0 = 0
   \<and> elec_transform example_state0 = []"
proof -
  from update_hologram_never_rotates [OF init_hologram_example particles_example,
      of "\<lambda>k. last_first" "[1 / 30, 1 / 30]"]
  obtain s es where
    "run_hologram range_extractor (\<lambda>k. last_first) grey example_series 0 [1 / 30, 1 / 30]
       example_state0 = (s, es)"
    and frozen: "rotation s = 0" "elec_transform s = []"
    by blast
  then have "s = example_state0"
    by (simp only: run_hologram_example prod.inject)
  with frozen have "rotation example_state0 = 0" "elec_transform example_state0 = []"
    by simp_all
  then show ?thesis
    using init_hologram_example particles_example run_hologram_example by blast
qed

section \<open>Extraction failures when the layers are created\<close>

lemma low_series_sel:
  "dims low_series = (2, 2, 2)"
  "frames low_series = [[2 / 5, 2 / 5, 2 / 5, 2 / 5, 2 / 5, 2 / 5, 2 / 5, 1]]"
  by (simp_all add: low_series_def)

text \<open>
  Claim C5, at a first frame of shape \<open>(2, 2, 2)\<close> with seven values \<open>0.4\<close> and one
  value \<open>1\<close>: the extraction fails at the first level, \<open>0.3\<close>, which is below the
  values of the frame, and succeeds at the second, \<open>0.425\<close>; the loop that creates
  the layers ends at the failure, so no layer at all is created, and since a tick updates
  the layers of \<^verbatim>\<open>mesh_layers\<close> only, no layer is ever generated.
\<close>

theorem create_layers_stops_at_first_failure:
  "range_extractor (dims low_series) (frames low_series ! 0) (iso_levels ! 0) = Inl ValueError
   \<and> range_extractor (dims low_series) (frames low_series ! 0) (iso_levels ! 1)
       = Inr \<lparr>verts = [(0, 0, 17 / 40)], faces = []\<rparr>
   \<and> create_layers range_extractor grey low_series 0 iso_levels = []
   \<and> (\<exists>s0. init_hologram range_extractor last_first grey low_series = Inr s0
          \<and> mesh_layers s0 = []
          \<and> mesh_layers (fst (update_hologram range_extractor last_first grey low_series
                (1 / 30) s0)) = [])"
proof -
  have levels: "iso_levels ! 0 = 3 / 10" "iso_levels ! 1 = 17 / 40"
    by (simp_all add: iso_levels_eq)
  have fails: "range_extractor (dims low_series) (frames low_series ! 0) (iso_levels ! 0)
       = Inl ValueError"
    unfolding levels by (simp add: range_extractor_def low_series_sel)
  have later: "range_extractor (dims low_series) (frames low_series ! 0) (iso_levels ! 1)
       = Inr \<lparr>verts = [(0, 0, 17 / 40)], faces = []\<rparr>"
    unfolding levels by (simp add: range_extractor_def low_series_sel)
  have none: "create_layers range_extractor grey low_series 0 iso_levels = []"
    by (simp add: iso_levels_eq low_series_sel py_index_def range_extractor_def)
  have init: "init_hologram range_extractor last_first grey low_series =
      Inr \<lparr>h_current_frame = 0, rotation = 0, mesh_layers = [],
           particles = Some \<lparr>mk_pos = Positions [(1, 1, 1)],
                              mk_face_color = Colors [(1, 1, 1, 1 / 2)], mk_size = Sizes [8],
                              mk_transform = [Translate (- 1, - 1, - 1)]\<rparr>,
           elec_transform = []\<rparr>"
    unfolding init_hologram_def none
    by (simp add: low_series_sel py_index_def create_particles_def where_gt_def
        last_first_def grey_def transform_translate_def upt_rec)
  have tick: "mesh_layers (fst (update_hologram range_extractor last_first grey low_series
                (1 / 30) s)) = []" if "mesh_layers s = []" for s
    using length_mesh_layers_update_hologram
      [of range_extractor last_first grey low_series "1 / 30" s] that by simp
  show ?thesis
    using fails later none init tick by simp
qed

section \<open>The frame index\<close>

lemma py_int_of_int: "py_int (real_of_int k) = k"
  by (simp add: py_int_def)

lemma update_interactive_frame:
  assumes "voxels s \<noteq> []"
  shows "current_frame (fst (update_interactive center dt s))
         = (current_frame s + max 1 (py_int (params s Frame_skip))) mod int (length (voxels s))"
    and "params (fst (update_interactive center dt s)) = params s"
    and "voxels (fst (update_interactive center dt s)) = voxels s"
    and "snd (update_interactive center dt s) = None"
proof -
  let ?i = "(current_frame s + max 1 (py_int (params s Frame_skip))) mod int (length (voxels s))"
  have "py_index (voxels s) ?i = Inr (voxels s ! nat ?i)"
    using assms by (rule py_index_mod)
  then show "current_frame (fst (update_interactive center dt s)) = ?i"
    and "params (fst (update_interactive center dt s)) = params s"
    and "voxels (fst (update_interactive center dt s)) = voxels s"
    and "snd (update_interactive center dt s) = None"
    using assms by (simp_all add: update_interactive_def Let_def)
qed

lemma run_interactive_frame:
  assumes "voxels s \<noteq> []" and "1 \<le> k" and "params s Frame_skip = real_of_int k"
  shows "current_frame (run_interactive center (dt # dts) s)
         = (current_frame s + int (length (dt # dts)) * k) mod int (length (voxels s))"
  using assms
proof (induction dts arbitrary: s dt)
  case Nil
  then show ?case
    by (simp add: update_interactive_frame py_int_of_int)
next
  case (Cons dt' dts)
  let ?s1 = "fst (update_interactive center dt s)"
  note step = update_interactive_frame [OF Cons.prems(1), of center dt]
  have "current_frame (run_interactive center (dt' # dts) ?s1)
         = (current_frame ?s1 + int (length (dt' # dts)) * k) mod int (length (voxels ?s1))"
    using Cons.prems by (intro Cons.IH) (simp_all add: step)
  also have "\<dots> = ((current_frame s + k) mod int (length (voxels s))
                      + int (length (dt' # dts)) * k) mod int (length (voxels s))"
    using Cons.prems(2,3) by (simp add: step py_int_of_int)
  also have "\<dots> = ((current_frame s + k) + int (length (dt' # dts)) * k)
                     mod int (length (voxels s))"
    by (simp only: mod_add_left_eq)
  also have "\<dots> = (current_frame s + int (length (dt # dt' # dts)) * k)
                     mod int (length (voxels s))"
    by (simp add: algebra_simps)
  finally show ?case by simp
qed

lemma update_hologram_frame:
  assumes "frames vox \<noteq> []"
  shows "h_current_frame (fst (update_hologram marching_cubes choice cmap vox dt s))
         = (h_current_frame s + 1) mod int (length (frames vox))"
proof -
  have "h_current_frame (fst (rotate_everything vox dt s')) = h_current_frame s'" for s'
    by (simp add: rotate_everything_def Let_def split: sum.splits option.splits)
  then show ?thesis
    using assms by (simp add: update_hologram_sections Let_def split: option.splits)
qed

lemma run_hologram_frame:
  assumes "frames vox \<noteq> []"
  shows "h_current_frame (fst (run_hologram marching_cubes choices cmap vox n (dt # dts) s))
         = (h_current_frame s + int (length (dt # dts))) mod int (length (frames vox))"
proof (induction dts arbitrary: s dt n)
  case Nil
  show ?case
    using update_hologram_frame [OF assms, of marching_cubes "choices n" cmap dt s]
    by (simp add: fst_run_hologram_Cons del: run_hologram.simps(2))
next
  case (Cons dt' dts)
  let ?s1 = "fst (update_hologram marching_cubes (choices n) cmap vox dt s)"
  have "h_current_frame (fst (run_hologram marching_cubes choices cmap vox (n + 1) (dt' # dts) ?s1))
        = (h_current_frame ?s1 + int (length (dt' # dts))) mod int (length (frames vox))"
    by (rule Cons.IH)
  also have "\<dots> = ((h_current_frame s + 1) mod int (length (frames vox))
                      + int (length (dt' # dts))) mod int (length (frames vox))"
    by (simp add: update_hologram_frame [OF assms])
  also have "\<dots> = ((h_current_frame s + 1) + int (length (dt' # dts)))
                      mod int (length (frames vox))"
    by (simp only: mod_add_left_eq)
  also have "\<dots> = (h_current_frame s + int (length (dt # dt' # dts)))
                      mod int (length (frames vox))"
    by (simp add: algebra_simps)
  finally show ?case
    by (simp only: fst_run_hologram_Cons)
qed

lemma five_frames_sel:
  "voxels five_frames = [[0], [1 / 4], [1 / 2], [3 / 4], [1]]"
  "params five_frames Frame_skip = 2" "current_frame five_frames = 0"
  by (simp_all add: five_frames_def)

lemma frames_example_series: "frames example_series \<noteq> []"
  by (simp add: example_series_sel)

text \<open>
  Claim C7. On every tick the frame index advances by \<^verbatim>\<open>frame_skip\<close> modulo the length
  of the series: in the interactive viewer by the value \<open>k \<ge> 1\<close> the slider gave
  \<^verbatim>\<open>frame_skip\<close>, so that after \<open>n \<ge> 1\<close> ticks it is \<open>(start + n * k) mod length\<close>;
  in the hologram viewer, which has no such parameter, by \<open>1\<close>, whatever the extractor
  and the sampler do on the tick.
\<close>

theorem frame_index_advances:
  assumes "voxels s \<noteq> []" and "1 \<le> k" and "params s Frame_skip = real_of_int k"
    and "frames vox \<noteq> []"
  shows "current_frame (fst (update_interactive center dt s))
           = (current_frame s + k) mod int (length (voxels s))
       \<and> current_frame (run_interactive center (dt # dts) s)
           = (current_frame s + int (length (dt # dts)) * k) mod int (length (voxels s))
       \<and> h_current_frame (fst (update_hologram marching_cubes choice cmap vox dt hs))
           = (h_current_frame hs + 1) mod int (length (frames vox))
       \<and> h_current_frame (fst (run_hologram marching_cubes choices cmap vox n (dt # dts) hs))
           = (h_current_frame hs + int (length (dt # dts))) mod int (length (frames vox))"
  using assms
  by (simp only: update_interactive_frame run_interactive_frame update_hologram_frame
      run_hologram_frame py_int_of_int max_absorb2 simp_thms)

text \<open>
  The theorem at \<^verbatim>\<open>frame_skip = 2\<close> over five frames, starting at index \<open>0\<close>: the indices
  are \<open>0, 2, 4, 1, 3, 0\<close>; and on the example series of the hologram viewer, where
  every tick raises.
\<close>

theorem frame_index_advances_witness:
  "params five_frames Frame_skip = real_of_int 2
   \<and> length (voxels five_frames) = 5
   \<and> map (\<lambda>dts. current_frame (run_interactive (1 / 2, 1 / 2, 1 / 2) dts five_frames))
        [[], [1 / 30], [1 / 30, 1 / 30], [1 / 30, 1 / 30, 1 / 30],
         [1 / 30, 1 / 30, 1 / 30, 1 / 30], [1 / 30, 1 / 30, 1 / 30, 1 / 30, 1 / 30]]
       = [0, 2, 4, 1, 3, 0]
   \<and> current_frame (fst (update_interactive (1 / 2, 1 / 2, 1 / 2) (1 / 30) five_frames)) = 2
   \<and> h_current_frame (fst (update_hologram range_extractor last_first grey example_series
        (1 / 30) example_state0)) = 1
   \<and> h_current_frame (fst (run_hologram range_extractor (\<lambda>k. last_first) grey example_series 0
        [1 / 30, 1 / 30, 1 / 30] example_state0)) = 1"
proof -
  have nonempty: "voxels five_frames \<noteq> []" by (simp add: five_frames_sel)
  have skip: "params five_frames Frame_skip = real_of_int 2" by (simp add: five_frames_sel)
  have len: "length (voxels five_frames) = 5" by (simp add: five_frames_sel)
  have start: "h_current_frame example_state0 = 0" by (simp add: example_state0_def)
  have two: "(1::int) \<le> 2" by simp
  note inst = frame_index_advances [where s = five_frames and k = 2 and vox = example_series
      and center = "(1 / 2, 1 / 2, 1 / 2)" and marching_cubes = range_extractor
      and choice = last_first and cmap = grey and hs = example_state0
      and choices = "\<lambda>k. last_first" and n = 0,
      OF nonempty two skip frames_example_series]
  have run: "current_frame (run_interactive (1 / 2, 1 / 2, 1 / 2) (dt # dts) five_frames)
      = (int (length (dt # dts)) * 2) mod 5" for dt dts
    using inst [where dt = dt and dts = dts] by (simp add: five_frames_sel)
  have one: "current_frame (fst (update_interactive (1 / 2, 1 / 2, 1 / 2) (1 / 30) five_frames)) = 2"
    using inst [where dt = "1 / 30" and dts = "[]"] by (simp add: five_frames_sel)
  have h_one: "h_current_frame (fst (update_hologram range_extractor last_first grey
        example_series (1 / 30) example_state0)) = 1"
    using inst [where dt = "1 / 30" and dts = "[]"] by (simp add: example_series_sel start)
  have h_run: "h_current_frame (fst (run_hologram range_extractor (\<lambda>k. last_first) grey
        example_series 0 [1 / 30, 1 / 30, 1 / 30] example_state0)) = 1"
    using inst [where dt = "1 / 30" and dts = "[1 / 30, 1 / 30]"]
    by (simp add: example_series_sel start del: run_hologram.simps)
  have trace: "map (\<lambda>dts. current_frame (run_interactive (1 / 2, 1 / 2, 1 / 2) dts five_frames))
        [[], [1 / 30], [1 / 30, 1 / 30], [1 / 30, 1 / 30, 1 / 30],
         [1 / 30, 1 / 30, 1 / 30, 1 / 30], [1 / 30, 1 / 30, 1 / 30, 1 / 30, 1 / 30]]
       = [0, 2, 4, 1, 3, 0]"
    by (simp add: run five_frames_sel del: run_interactive.simps(2))
  show ?thesis
    using skip len trace one h_one h_run by blast
qed

section \<open>Parameters and reprocessing\<close>

lemma voxels_update_param: "voxels (update_param name v s) = voxels s"
  by (simp add: update_param_def Let_def)

lemma voxels_set_value: "voxels (set_value name v s) = voxels s"
  by (simp add: set_value_def voxels_update_param)

lemma voxels_set_values: "voxels (set_values nvs s) = voxels s"
  by (induction nvs s rule: set_values.induct) (simp_all add: voxels_set_value)

lemma voxels_reset_defaults: "voxels (reset_defaults s) = voxels s"
  by (simp add: reset_defaults_def voxels_set_values)

lemma voxels_update_interactive: "voxels (fst (update_interactive center dt s)) = voxels s"
  by (simp add: update_interactive_def Let_def split: sum.splits)

lemma voxels_run_interactive: "voxels (run_interactive center dts s) = voxels s"
  by (induction dts arbitrary: s) (simp_all add: voxels_update_interactive)

lemma voxels_reprocess_Inr:
  "process_voxels gf (params s) raw = Inr out \<Longrightarrow> voxels (fst (reprocess gf raw s)) = out"
  by (simp add: reprocess_def Let_def split: sum.splits)

lemma reprocess_Inl:
  "process_voxels gf (params s) raw = Inl e \<Longrightarrow> reprocess gf raw s = (s, Some e)"
  by (simp add: reprocess_def)

lemma clip_square:
  assumes "0 \<le> b" "b \<le> 1"
  shows "clip (b powr 2 * 1) 0 1 = b ^ 2"
proof -
  have "b ^ 2 \<le> 1" using assms by (simp add: power_le_one)
  then show ?thesis using assms by (simp add: clip_def)
qed

lemma contrast_two:
  assumes "p Contrast = 2" "p Brightness = 1"
  shows "contrast_brightness p (rescaled vmin vmax frame)
         = map (\<lambda>b. b ^ 2) (rescaled vmin vmax frame)"
proof -
  have "clip (clip y 0 1 powr 2 * 1) 0 1 = (clip y 0 1) ^ 2" for y
    using clip_unit [of y] by (intro clip_square) simp_all
  then show ?thesis
    using assms by (simp add: contrast_brightness_def rescaled_def del: powr_numeral)
qed

lemma params_contrast_moved:
  "params (update_param Contrast 200 baseline) = flat_params(Contrast := 2)"
  by (simp add: update_param_def baseline_def slider_scale_def)

lemma percentile_example_frame:
  "percentile [0, 2, 4] 5 95 = Inr (1 / 5, 19 / 5)"
  by (simp add: percentile_def quantile_linear_def)

lemma half_powr_unit: "0 \<le> (1 / 2 :: real) powr (4 / 5) \<and> (1 / 2 :: real) powr (4 / 5) \<le> 1"
  by (simp add: powr_le1)

lemma process_voxels_baseline:
  "process_voxels mean_filter flat_params [[0, 2, 4]] = Inr (voxels baseline)"
  using half_powr_unit
  by (simp add: process_voxels_def flat_params_def normalize_frame_def
      percentile_example_frame clip_def baseline_def)

lemma process_voxels_contrast_moved:
  "process_voxels mean_filter (flat_params(Contrast := 2)) [[0, 2, 4]] = Inr [[0, 1 / 4, 1]]"
  by (simp add: process_voxels_def flat_params_def normalize_frame_def
      percentile_example_frame clip_def power2_eq_square)

lemma params_brightness_moved:
  "params (update_param Brightness 50 (update_param Contrast 200 baseline))
   = flat_params(Contrast := 2, Brightness := 1 / 2)"
  by (simp add: update_param_def baseline_def slider_scale_def)

lemma params_smoothing_moved:
  "params (update_param Smoothing 150 (update_param Contrast 200 baseline))
   = default_params(Contrast := 2)"
  by (auto simp add: update_param_def baseline_def slider_scale_def flat_params_def)

lemma process_voxels_half_brightness:
  "process_voxels gaussian_filter (flat_params(Contrast := 2, Brightness := 1 / 2)) [[0, 2, 4]]
   = Inr [[0, 1 / 8, 1 / 2]]"
  by (simp add: process_voxels_def flat_params_def normalize_frame_def
      percentile_example_frame clip_def power2_eq_square)

lemma process_voxels_default_smoothing:
  "process_voxels mean_filter (default_params(Contrast := 2)) [[0, 2, 4]]
   = Inr [[5 / 12, 5 / 12, 5 / 12]]"
  by (simp add: process_voxels_def normalize_frame_def
      percentile_example_frame clip_def power2_eq_square mean_filter_def)

text \<open>
  Claim C8, as stated, fails in its example. On the raw series \<open>[[0, 2, 4]]\<close> the rescaled
  values are \<open>[0, 1/2, 1]\<close> and their squares \<open>[0, 1/4, 1]\<close>. After the contrast slider
  is moved to \<open>2.0\<close>, reprocessing gives \<open>[0, 1/8, 1/2]\<close> when the brightness is
  \<open>0.5\<close> (whatever the filter), and with the default smoothing \<open>1.5\<close> it gives the
  filtered squares, here those of the mean filter.
\<close>

theorem contrast_two_is_not_the_square:
  "params (update_param Brightness 50 (update_param Contrast 200 baseline)) Contrast = 2
   \<and> params (update_param Smoothing 150 (update_param Contrast 200 baseline)) Contrast = 2
   \<and> params (update_param Smoothing 150 (update_param Contrast 200 baseline)) Smoothing = 3 / 2
   \<and> rescaled (1 / 5) (19 / 5) [0, 2, 4] = [0, 1 / 2, 1]
   \<and> map (\<lambda>b. b ^ 2) [0, 1 / 2, 1 :: real] = [0, 1 / 4, 1]
   \<and> (\<forall>gaussian_filter.
         voxels (fst (reprocess gaussian_filter [[0, 2, 4]]
           (update_param Brightness 50 (update_param Contrast 200 baseline))))
         = [[0, 1 / 8, 1 / 2]])
   \<and> voxels (fst (reprocess mean_filter [[0, 2, 4]]
         (update_param Smoothing 150 (update_param Contrast 200 baseline))))
       = [[5 / 12, 5 / 12, 5 / 12]]
   \<and> [[0, 1 / 8, 1 / 2]] \<noteq> [[0, 1 / 4, 1 :: real]]
   \<and> [[5 / 12, 5 / 12, 5 / 12]] \<noteq> [[0, 1 / 4, 1 :: real]]"
proof -
  have half: "voxels (fst (reprocess gaussian_filter [[0, 2, 4]]
           (update_param Brightness 50 (update_param Contrast 200 baseline))))
         = [[0, 1 / 8, 1 / 2]]" for gaussian_filter
    by (rule voxels_reprocess_Inr)
       (simp only: params_brightness_moved process_voxels_half_brightness)
  have blurred: "voxels (fst (reprocess mean_filter [[0, 2, 4]]
         (update_param Smoothing 150 (update_param Contrast 200 baseline))))
       = [[5 / 12, 5 / 12, 5 / 12]]"
    by (rule voxels_reprocess_Inr)
       (simp only: params_smoothing_moved process_voxels_default_smoothing)
  have base: "rescaled (1 / 5) (19 / 5) [0, 2, 4] = [0, 1 / 2, 1]"
    by (simp add: rescaled_def clip_def)
  show ?thesis
    using half blurred base
    by (simp add: params_brightness_moved params_smoothing_moved power2_eq_square)
qed

text \<open>
  Claim C8, amended. The slider handler (for any parameter, so for every batch parameter),
  the reset of the defaults and the ticks of the timer leave the processed series
  \<^verbatim>\<open>voxels\<close> as it is. \<^verbatim>\<open>reprocess\<close> replaces it by what \<open>process_voxels\<close> computes
  from the raw series with the parameters of that moment (and leaves the state alone when
  \<open>process_voxels\<close> raises): frame \<open>i\<close> becomes its rescaled values (its own values when
  the percentile bounds collapse) raised to the contrast, multiplied by the brightness,
  clipped and smoothed. With \<^verbatim>\<open>contrast = 2\<close>, \<^verbatim>\<open>brightness = 1\<close> and no smoothing, a frame
  with \<open>vmin < vmax\<close> becomes the square of its rescaled values.
\<close>

theorem reprocess_only_recomputes:
  "voxels (update_param name v s) = voxels s
   \<and> voxels (reset_defaults s) = voxels s
   \<and> voxels (run_interactive center dts s) = voxels s
   \<and> (\<forall>out. process_voxels gaussian_filter (params s) voxels_raw = Inr out \<longrightarrow>
          voxels (fst (reprocess gaussian_filter voxels_raw s)) = out)
   \<and> (\<forall>e. process_voxels gaussian_filter (params s) voxels_raw = Inl e \<longrightarrow>
          reprocess gaussian_filter voxels_raw s = (s, Some e))
   \<and> (\<forall>out i vmin vmax.
          process_voxels gaussian_filter (params s) voxels_raw = Inr out
          \<and> i < length voxels_raw
          \<and> percentile (after_log_mix (params s) voxels_raw ! i)
                (params s Percentile_min) (params s Percentile_max) = Inr (vmin, vmax)
          \<and> vmin < vmax
          \<and> params s Contrast = 2 \<and> params s Brightness = 1 \<and> \<not> 0 < params s Smoothing
          \<longrightarrow> voxels (fst (reprocess gaussian_filter voxels_raw s)) ! i
                = map (\<lambda>b. b ^ 2)
                    (rescaled vmin vmax (after_log_mix (params s) voxels_raw ! i)))
   \<and> (\<forall>out i vmin vmax.
          process_voxels gaussian_filter (params s) voxels_raw = Inr out
          \<and> i < length voxels_raw
          \<and> percentile (after_log_mix (params s) voxels_raw ! i)
                (params s Percentile_min) (params s Percentile_max) = Inr (vmin, vmax)
          \<longrightarrow> voxels (fst (reprocess gaussian_filter voxels_raw s)) ! i
                = smoothed gaussian_filter (params s)
                    (contrast_brightness (params s)
                      (if vmin < vmax
                       then rescaled vmin vmax (after_log_mix (params s) voxels_raw ! i)
                       else after_log_mix (params s) voxels_raw ! i)))"
proof -
  have general: "voxels (fst (reprocess gaussian_filter voxels_raw s)) ! i
          = smoothed gaussian_filter (params s)
              (contrast_brightness (params s)
                (if vmin < vmax
                 then rescaled vmin vmax (after_log_mix (params s) voxels_raw ! i)
                 else after_log_mix (params s) voxels_raw ! i))"
    if out: "process_voxels gaussian_filter (params s) voxels_raw = Inr out"
      and i: "i < length voxels_raw"
      and pct: "percentile (after_log_mix (params s) voxels_raw ! i)
                (params s Percentile_min) (params s Percentile_max) = Inr (vmin, vmax)"
    for out i vmin vmax
  proof -
    from out i pct have "out ! i =
        smoothed gaussian_filter (params s)
          (contrast_brightness (params s)
            (if vmax > vmin then rescaled vmin vmax (after_log_mix (params s) voxels_raw ! i)
             else after_log_mix (params s) voxels_raw ! i))"
      by (rule frame_through_pipeline)
    then show ?thesis by (simp add: voxels_reprocess_Inr [OF out])
  qed
  have squares: "voxels (fst (reprocess gaussian_filter voxels_raw s)) ! i
          = map (\<lambda>b. b ^ 2) (rescaled vmin vmax (after_log_mix (params s) voxels_raw ! i))"
    if out: "process_voxels gaussian_filter (params s) voxels_raw = Inr out"
      and i: "i < length voxels_raw"
      and pct: "percentile (after_log_mix (params s) voxels_raw ! i)
                (params s Percentile_min) (params s Percentile_max) = Inr (vmin, vmax)"
      and lt: "vmin < vmax"
      and p: "params s Contrast = 2" "params s Brightness = 1" "\<not> 0 < params s Smoothing"
    for out i vmin vmax
    using general [OF out i pct] lt p by (simp add: smoothed_def contrast_two)
  have first: "voxels (update_param name v s) = voxels s
      \<and> voxels (reset_defaults s) = voxels s
      \<and> voxels (run_interactive center dts s) = voxels s
      \<and> (\<forall>out. process_voxels gaussian_filter (params s) voxels_raw = Inr out \<longrightarrow>
            voxels (fst (reprocess gaussian_filter voxels_raw s)) = out)
      \<and> (\<forall>e. process_voxels gaussian_filter (params s) voxels_raw = Inl e \<longrightarrow>
            reprocess gaussian_filter voxels_raw s = (s, Some e))"
    by (simp add: voxels_update_param voxels_reset_defaults voxels_run_interactive
        voxels_reprocess_Inr reprocess_Inl)
  from first squares general show ?thesis
    by blast
qed

text \<open>
  The theorem at the baseline state: moving the contrast slider from \<open>0.8\<close> to \<open>2.0\<close>
  keeps the processed series; reprocessing then gives the squares of the rescaled values
  \<open>[0, 1/2, 1]\<close>.
\<close>

theorem reprocess_only_recomputes_witness:
  "process_voxels mean_filter (params baseline) [[0, 2, 4]] = Inr (voxels baseline)
   \<and> params (update_param Contrast 200 baseline) Contrast = 2
   \<and> voxels (update_param Contrast 200 baseline) = voxels baseline
   \<and> voxels (fst (reprocess mean_filter [[0, 2, 4]] (update_param Contrast 200 baseline)))
       = [[0, 1 / 4, 1]]
   \<and> rescaled (1 / 5) (19 / 5) [0, 2, 4] = [0, 1 / 2, 1]
   \<and> voxels (fst (reprocess mean_filter [[0, 2, 4]] (update_param Contrast 200 baseline))) ! 0
       = map (\<lambda>b. b ^ 2) (rescaled (1 / 5) (19 / 5) [0, 2, 4])"
proof -
  let ?s = "update_param Contrast 200 baseline"
  note inst = reprocess_only_recomputes [where s = ?s and gaussian_filter = mean_filter
      and voxels_raw = "[[0, 2, 4]]"]
  have old: "process_voxels mean_filter (params baseline) [[0, 2, 4]] = Inr (voxels baseline)"
    using process_voxels_baseline by (simp add: baseline_def)
  have moved: "params ?s Contrast = 2"
    by (simp add: params_contrast_moved)
  have kept: "voxels ?s = voxels baseline"
    using reprocess_only_recomputes [where s = baseline and name = Contrast and v = 200]
    by (rule conjunct1)
  have run: "process_voxels mean_filter (params ?s) [[0, 2, 4]] = Inr [[0, 1 / 4, 1]]"
    by (simp only: params_contrast_moved process_voxels_contrast_moved)
  have new: "voxels (fst (reprocess mean_filter [[0, 2, 4]] ?s)) = [[0, 1 / 4, 1]]"
    using inst run by blast
  have base: "rescaled (1 / 5) (19 / 5) [0, 2, 4] = [0, 1 / 2, 1]"
    by (simp add: rescaled_def clip_def)
  have mix: "after_log_mix (params ?s) [[0, 2, 4]] ! 0 = [0, 2, 4]"
    by (simp add: params_contrast_moved after_log_mix_def flat_params_def)
  have pct: "percentile (after_log_mix (params ?s) [[0, 2, 4]] ! 0)
      (params ?s Percentile_min) (params ?s Percentile_max) = Inr (1 / 5, 19 / 5)"
    unfolding mix by (simp add: params_contrast_moved flat_params_def percentile_example_frame)
  have p: "params ?s Brightness = 1" "\<not> 0 < params ?s Smoothing"
    by (simp_all add: params_contrast_moved flat_params_def)
  have "voxels (fst (reprocess mean_filter [[0, 2, 4]] ?s)) ! 0
       = map (\<lambda>b. b ^ 2) (rescaled (1 / 5) (19 / 5) (after_log_mix (params ?s) [[0, 2, 4]] ! 0))"
    using inst run pct moved p by force
  then have square: "voxels (fst (reprocess mean_filter [[0, 2, 4]] ?s)) ! 0
       = map (\<lambda>b. b ^ 2) (rescaled (1 / 5) (19 / 5) [0, 2, 4])"
    by (simp only: mix)
  show ?thesis
    using old moved kept new base square by blast
qed

section \<open>The transforms of the layers\<close>

lemma update_interactive_transforms:
  assumes "voxels s \<noteq> []"
  shows "holo_transform (fst (update_interactive center dt s))
         = [Translate (neg_vec center),
            Rotate (rotation_angle (fst (update_interactive center dt s))) (0, 0, 1)]"
    and "elecs_transform (fst (update_interactive center dt s))
         = [Translate (neg_vec center),
            Rotate (rotation_angle (fst (update_interactive center dt s))) (0, 0, 1)]"
    and "rotation_angle (fst (update_interactive center dt s))
         = rotation_angle s + dt * params s Rotation_speed"
proof -
  let ?i = "(current_frame s + max 1 (py_int (params s Frame_skip))) mod int (length (voxels s))"
  have "py_index (voxels s) ?i = Inr (voxels s ! nat ?i)"
    using assms by (rule py_index_mod)
  then show "holo_transform (fst (update_interactive center dt s))
         = [Translate (neg_vec center),
            Rotate (rotation_angle (fst (update_interactive center dt s))) (0, 0, 1)]"
    and "elecs_transform (fst (update_interactive center dt s))
         = [Translate (neg_vec center),
            Rotate (rotation_angle (fst (update_interactive center dt s))) (0, 0, 1)]"
    and "rotation_angle (fst (update_interactive center dt s))
         = rotation_angle s + dt * params s Rotation_speed"
    using assms
    by (simp_all add: update_interactive_def Let_def transform_rotate_def
        transform_translate_def transform_reset_def)
qed

lemma recentre_and_rotate_fresh:
  "recentre_and_rotate center angle t = [Translate (neg_vec center), Rotate angle (0, 0, 1)]"
  by (simp add: recentre_and_rotate_def transform_rotate_def transform_translate_def
      transform_reset_def)

lemma rotate_only_fresh: "rotate_only angle t = [Rotate angle (0, 0, 1)]"
  by (simp add: rotate_only_def transform_rotate_def transform_reset_def)

lemma rotate_everything_transforms:
  assumes "frames vox \<noteq> []"
  shows "snd (rotate_everything vox dt s) = None"
    and "rotation (fst (rotate_everything vox dt s)) = rotation s + dt * ROTATION_SPEED"
    and "list_all (\<lambda>m. mv_transform m
             = [Translate (neg_vec (center_of (dims vox))),
                Rotate (rotation (fst (rotate_everything vox dt s))) (0, 0, 1)])
           (mesh_layers (fst (rotate_everything vox dt s)))"
    and "map_option mk_transform (particles (fst (rotate_everything vox dt s)))
         = map_option (\<lambda>pv. [Translate (neg_vec (center_of (dims vox))),
                Rotate (rotation (fst (rotate_everything vox dt s))) (0, 0, 1)]) (particles s)"
    and "elec_transform (fst (rotate_everything vox dt s))
         = [Rotate (rotation (fst (rotate_everything vox dt s))) (0, 0, 1)]"
proof -
  have "py_index (frames vox) 0 = Inr (frames vox ! 0)"
    using assms by (simp add: py_index_def)
  then show "snd (rotate_everything vox dt s) = None"
    and "rotation (fst (rotate_everything vox dt s)) = rotation s + dt * ROTATION_SPEED"
    and "list_all (\<lambda>m. mv_transform m
             = [Translate (neg_vec (center_of (dims vox))),
                Rotate (rotation (fst (rotate_everything vox dt s))) (0, 0, 1)])
           (mesh_layers (fst (rotate_everything vox dt s)))"
    and "map_option mk_transform (particles (fst (rotate_everything vox dt s)))
         = map_option (\<lambda>pv. [Translate (neg_vec (center_of (dims vox))),
                Rotate (rotation (fst (rotate_everything vox dt s))) (0, 0, 1)]) (particles s)"
    and "elec_transform (fst (rotate_everything vox dt s))
         = [Rotate (rotation (fst (rotate_everything vox dt s))) (0, 0, 1)]"
    by (simp_all add: rotate_everything_def Let_def recentre_and_rotate_fresh rotate_only_fresh
        SHOW_ELECTRODES_def list_all_iff split: option.splits)
qed

text \<open>
  In viz_interactive.py every tick rebuilds both transforms from the identity, as
  \<open>Translate (- center)\<close> followed by \<open>Rotate \<theta>\<close>; two ticks that reach the same angle
  give the same transforms, from whatever states they start.
\<close>

lemma interactive_transforms_rebuilt:
  assumes "voxels s \<noteq> []"
  shows "holo_transform (fst (update_interactive center dt s))
           = fresh_transform center (rotation_angle (fst (update_interactive center dt s)))"
    and "elecs_transform (fst (update_interactive center dt s))
           = fresh_transform center (rotation_angle (fst (update_interactive center dt s)))"
  using update_interactive_transforms [OF assms] by (simp_all add: fresh_transform_def)

lemma interactive_equal_angle_equal_transforms:
  assumes "voxels s \<noteq> []" and "voxels s' \<noteq> []"
    and "rotation_angle (fst (update_interactive center dt s))
         = rotation_angle (fst (update_interactive center dt' s'))"
  shows "holo_transform (fst (update_interactive center dt s))
           = holo_transform (fst (update_interactive center dt' s'))"
    and "elecs_transform (fst (update_interactive center dt s))
           = elecs_transform (fst (update_interactive center dt' s'))"
  using assms(3)
  by (simp_all add: interactive_transforms_rebuilt [OF assms(1)]
      interactive_transforms_rebuilt [OF assms(2)])

lemma tick_with_particles_never_completes:
  assumes "particles s \<noteq> None" and "frames vox \<noteq> []"
  shows "snd (update_hologram marching_cubes choice cmap vox dt s) \<noteq> None"
  using update_hologram_raises [OF assms, of marching_cubes choice cmap dt] by auto

text \<open>
  Claim C6, in viz_hologram.py, on the example series. The module body leaves the angle
  \<open>0\<close>, the transform \<open>Translate (- center)\<close> on the meshes and the particles and the
  identity on the electrode markers. Each of the two ticks raises (ValueError, then
  UnboundLocalError) before line 139 and ends in a state with these same transforms and
  the angle \<open>0\<close>: no transform is rebuilt. Lines 138-154, had the first tick reached them,
  would have set the angle \<open>1 / 15\<close> and rebuilt every transform from it.
\<close>

theorem hologram_tick_skips_transforms:
  "init_hologram range_extractor last_first grey example_series = Inr example_state0
   \<and> update_hologram range_extractor last_first grey example_series (1 / 30) example_state0
       = (example_state0\<lparr>h_current_frame := 1\<rparr>, Some ValueError)
   \<and> update_hologram range_extractor last_first grey example_series (1 / 30)
         (example_state0\<lparr>h_current_frame := 1\<rparr>)
       = (example_state0, Some UnboundLocalError)
   \<and> rotation example_state0 = 0
   \<and> map mv_transform (mesh_layers example_state0) = replicate 5 [Translate (- 1, - 1, - 1)]
   \<and> map_option mk_transform (particles example_state0) = Some [Translate (- 1, - 1, - 1)]
   \<and> elec_transform example_state0 = []
   \<and> rotation (fst (rotate_everything example_series (1 / 30) example_state0)) = 1 / 15
   \<and> map mv_transform (mesh_layers (fst (rotate_everything example_series (1 / 30)
         example_state0)))
       = replicate 5 (fresh_transform (center_of (dims example_series)) (1 / 15))
   \<and> fresh_transform (center_of (dims example_series)) (1 / 15)
       = [Translate (- 1, - 1, - 1), Rotate (1 / 15) (0, 0, 1)]
   \<and> elec_transform (fst (rotate_everything example_series (1 / 30) example_state0))
       = [Rotate (1 / 15) (0, 0, 1)]"
proof -
  have state: "rotation example_state0 = 0"
    "map mv_transform (mesh_layers example_state0) = replicate 5 [Translate (- 1, - 1, - 1)]"
    "map_option mk_transform (particles example_state0) = Some [Translate (- 1, - 1, - 1)]"
    "elec_transform example_state0 = []"
    by (simp_all add: example_state0_def example_layer_def numeral_eq_Suc)
  note sect = rotate_everything_transforms [OF frames_example_series, of "1 / 30" example_state0]
  have angle: "rotation (fst (rotate_everything example_series (1 / 30) example_state0)) = 1 / 15"
    using sect(2) by (simp add: state ROTATION_SPEED_def)
  have fresh: "fresh_transform (center_of (dims example_series)) (1 / 15)
       = [Translate (- 1, - 1, - 1), Rotate (1 / 15) (0, 0, 1)]"
    by (simp add: fresh_transform_def example_series_sel)
  have len: "length (mesh_layers (fst (rotate_everything example_series (1 / 30)
      example_state0))) = 5"
    by (simp add: length_mesh_layers_rotate_everything example_state0_def)
  have "map mv_transform (mesh_layers (fst (rotate_everything example_series (1 / 30)
         example_state0)))
       = replicate (length (mesh_layers (fst (rotate_everything example_series (1 / 30)
           example_state0)))) (fresh_transform (center_of (dims example_series)) (1 / 15))"
    using sect(3) unfolding angle
    by (simp add: fresh_transform_def list_all_iff map_replicate_const [symmetric]
        cong: map_cong)
  then have meshes: "map mv_transform (mesh_layers (fst (rotate_everything example_series
      (1 / 30) example_state0)))
       = replicate 5 (fresh_transform (center_of (dims example_series)) (1 / 15))"
    by (simp only: len)
  have elec: "elec_transform (fst (rotate_everything example_series (1 / 30) example_state0))
       = [Rotate (1 / 15) (0, 0, 1)]"
    using sect(5) by (simp only: angle)
  show ?thesis
    using init_hologram_example update_hologram_example_1 update_hologram_example_2
      state angle meshes fresh elec
    by simp
qed

end
